theory Spec2Isabelle
  imports Main "HOL-Library.Word"
begin

section \<open>JavaScript strings\<close>

text \<open>
  A JavaScript string is a sequence of 16-bit code units. String constants of the
  source are written \<open>js ''...''\<close>.
\<close>

type_synonym code_unit = "16 word"
type_synonym jsstring = "code_unit list"

definition js :: "string \<Rightarrow> jsstring" where
  "js s = map of_char s"

text \<open>Exceptions that escape a function of the backend.\<close>

datatype error = URIError | StoreError | HashError

text \<open>Sequencing of a computation that may throw.\<close>

definition bind_result :: "error + 'a \<Rightarrow> ('a \<Rightarrow> error + 'b) \<Rightarrow> error + 'b" where
  "bind_result r f = (case r of Inl e \<Rightarrow> Inl e | Inr x \<Rightarrow> f x)"

subsection \<open>\<open>String.prototype.split\<close>, \<open>Array.prototype.join\<close>, \<open>String.prototype.trim\<close>\<close>

text \<open>\<open>s.split(sep)\<close> for a one-character separator: every occurrence splits, and the
  result always has at least one element (\<open>"".split(";")\<close> is \<open>[""]\<close>).\<close>

function split_on :: "code_unit \<Rightarrow> jsstring \<Rightarrow> jsstring list" where
  "split_on sep s =
     (case dropWhile (\<lambda>c. c \<noteq> sep) s of
        [] \<Rightarrow> [takeWhile (\<lambda>c. c \<noteq> sep) s]
      | _ # rest \<Rightarrow> takeWhile (\<lambda>c. c \<noteq> sep) s # split_on sep rest)"
  by pat_completeness auto
termination
proof (relation "measure (\<lambda>(sep, s). length s)")
  fix sep :: code_unit and s x rest
  assume "dropWhile (\<lambda>c. c \<noteq> sep) s = x # rest"
  then have "length (x # rest) \<le> length s"
    by (metis length_dropWhile_le)
  then show "((sep, rest), (sep, s)) \<in> measure (\<lambda>(sep, s). length s)"
    by simp
qed simp

declare split_on.simps [simp del]

text \<open>\<open>xs.join(sep)\<close>.\<close>

fun join :: "jsstring \<Rightarrow> jsstring list \<Rightarrow> jsstring" where
  "join sep [] = []"
| "join sep [x] = x"
| "join sep (x # y # ys) = x @ sep @ join sep (y # ys)"

text \<open>The code units that \<open>trim\<close> removes: ECMAScript's WhiteSpace and LineTerminator.\<close>

definition isWhiteSpace :: "code_unit \<Rightarrow> bool" where
  "isWhiteSpace c \<longleftrightarrow>
     c \<in> set [0x09, 0x0A, 0x0B, 0x0C, 0x0D, 0x20, 0xA0, 0x1680,
              0x2000, 0x2001, 0x2002, 0x2003, 0x2004, 0x2005, 0x2006, 0x2007, 0x2008,
              0x2009, 0x200A, 0x2028, 0x2029, 0x202F, 0x205F, 0x3000, 0xFEFF]"

definition trim :: "jsstring \<Rightarrow> jsstring" where
  "trim s = rev (dropWhile isWhiteSpace (rev (dropWhile isWhiteSpace s)))"

subsection \<open>\<open>encodeURIComponent\<close>\<close>

text \<open>
  The built-in follows ECMA-262 \<open>Encode(string, uriUnescaped)\<close>: a code unit of the
  unescaped set is copied; any other code point is written as the percent-escaped octets
  of its UTF-8 encoding; an unpaired surrogate throws URIError.
\<close>

definition uriUnescaped :: "code_unit \<Rightarrow> bool" where
  "uriUnescaped c \<longleftrightarrow>
     c \<in> set (js ''ABCDEFGHIJKLMNOPQRSTUVWXYZabcdefghijklmnopqrstuvwxyz0123456789-_.!~*()'')
     \<or> c = 0x27"

definition isLeadingSurrogate :: "code_unit \<Rightarrow> bool" where
  "isLeadingSurrogate c \<longleftrightarrow> 0xD800 \<le> unat c \<and> unat c \<le> 0xDBFF"

definition isTrailingSurrogate :: "code_unit \<Rightarrow> bool" where
  "isTrailingSurrogate c \<longleftrightarrow> 0xDC00 \<le> unat c \<and> unat c \<le> 0xDFFF"

definition UTF16SurrogatePairToCodePoint :: "code_unit \<Rightarrow> code_unit \<Rightarrow> nat" where
  "UTF16SurrogatePairToCodePoint lead trail =
     (unat lead - 0xD800) * 0x400 + (unat trail - 0xDC00) + 0x10000"

record code_point_record =
  CodePoint :: nat
  CodeUnitCount :: nat
  IsUnpairedSurrogate :: bool

text \<open>\<open>CodePointAt(string, 0)\<close> on a non-empty string \<open>first # rest\<close>.\<close>

definition CodePointAt :: "code_unit \<Rightarrow> jsstring \<Rightarrow> code_point_record" where
  "CodePointAt first rest =
     (if \<not> isLeadingSurrogate first \<and> \<not> isTrailingSurrogate first then
        \<lparr>CodePoint = unat first, CodeUnitCount = 1, IsUnpairedSurrogate = False\<rparr>
      else if isTrailingSurrogate first \<or> rest = [] then
        \<lparr>CodePoint = unat first, CodeUnitCount = 1, IsUnpairedSurrogate = True\<rparr>
      else if \<not> isTrailingSurrogate (hd rest) then
        \<lparr>CodePoint = unat first, CodeUnitCount = 1, IsUnpairedSurrogate = True\<rparr>
      else
        \<lparr>CodePoint = UTF16SurrogatePairToCodePoint first (hd rest), CodeUnitCount = 2,
         IsUnpairedSurrogate = False\<rparr>)"

text \<open>The UTF-8 octets of a code point.\<close>

definition utf8_octets :: "nat \<Rightarrow> nat list" where
  "utf8_octets cp =
     (if cp < 0x80 then [cp]
      else if cp < 0x800 then [0xC0 + cp div 0x40, 0x80 + cp mod 0x40]
      else if cp < 0x10000 then
        [0xE0 + cp div 0x1000, 0x80 + cp div 0x40 mod 0x40, 0x80 + cp mod 0x40]
      else
        [0xF0 + cp div 0x40000, 0x80 + cp div 0x1000 mod 0x40,
         0x80 + cp div 0x40 mod 0x40, 0x80 + cp mod 0x40])"

definition hex_digit :: "nat \<Rightarrow> code_unit" where
  "hex_digit d = (if d < 10 then of_nat (0x30 + d) else of_nat (0x37 + d))"

text \<open>One octet as \<open>%XX\<close>, with upper-case hexadecimal digits.\<close>

definition escape_octet :: "nat \<Rightarrow> jsstring" where
  "escape_octet b = [0x25, hex_digit (b div 16), hex_digit (b mod 16)]"

fun encodeURIComponent :: "jsstring \<Rightarrow> error + jsstring" where
  "encodeURIComponent [] = Inr []"
| "encodeURIComponent (c # cs) =
     (if uriUnescaped c then
        bind_result (encodeURIComponent cs) (\<lambda>r. Inr (c # r))
      else
        let cp = CodePointAt c cs in
        if IsUnpairedSurrogate cp then Inl URIError
        else
          bind_result (encodeURIComponent (drop (CodeUnitCount cp - 1) cs))
            (\<lambda>r. Inr (concat (map escape_octet (utf8_octets (CodePoint cp))) @ r)))"

subsection \<open>\<open>decodeURIComponent\<close>\<close>

text \<open>
  The built-in follows ECMA-262 \<open>Decode(string, "")\<close>: a code unit other than \<open>%\<close> is
  copied; \<open>%XX\<close> with a leading 0 bit is the code unit \<open>XX\<close>; otherwise the leading 1 bits
  of \<open>XX\<close> give the number of octets of a UTF-8 sequence, whose remaining octets must follow
  as \<open>%XX\<close> each and which must be a valid UTF-8 encoding of a code point. Every failure
  throws URIError.
\<close>

definition hex_value :: "code_unit \<Rightarrow> nat option" where
  "hex_value c =
     (let n = unat c in
      if 0x30 \<le> n \<and> n \<le> 0x39 then Some (n - 0x30)
      else if 0x41 \<le> n \<and> n \<le> 0x46 then Some (n - 0x37)
      else if 0x61 \<le> n \<and> n \<le> 0x66 then Some (n - 0x57)
      else None)"

text \<open>\<open>ParseHexOctet\<close> on the two code units after a \<open>%\<close>; \<open>None\<close> when fewer than two
  code units are left or one of them is not a hexadecimal digit.\<close>

fun ParseHexOctet :: "jsstring \<Rightarrow> nat option" where
  "ParseHexOctet [h1, h2] =
     (case hex_value h1 of None \<Rightarrow> None
      | Some a \<Rightarrow> (case hex_value h2 of None \<Rightarrow> None | Some b \<Rightarrow> Some (16 * a + b)))"
| "ParseHexOctet _ = None"

text \<open>The number of leading 1 bits of an octet (5 stands for "more than 4").\<close>

definition leading_ones :: "nat \<Rightarrow> nat" where
  "leading_ones B =
     (if B < 0x80 then 0 else if B < 0xC0 then 1 else if B < 0xE0 then 2
      else if B < 0xF0 then 3 else if B < 0xF8 then 4 else 5)"

text \<open>The next \<open>k\<close> continuation octets, each written \<open>%XX\<close>.\<close>

fun continuation_octets :: "nat \<Rightarrow> jsstring \<Rightarrow> nat list option" where
  "continuation_octets 0 s = Some []"
| "continuation_octets (Suc k) s =
     (case s of
        p # rest \<Rightarrow>
          if p \<noteq> 0x25 then None
          else (case ParseHexOctet (take 2 rest) of None \<Rightarrow> None
                | Some b \<Rightarrow> map_option ((#) b) (continuation_octets k (drop 2 rest)))
      | [] \<Rightarrow> None)"

definition isContinuation :: "nat \<Rightarrow> bool" where
  "isContinuation b \<longleftrightarrow> 0x80 \<le> b \<and> b \<le> 0xBF"

text \<open>
  The code point of a multi-octet UTF-8 sequence, or \<open>None\<close> when the octets are not a
  valid UTF-8 encoding: a continuation octet outside \<open>80..BF\<close>, an overlong form, a
  surrogate code point, or a value above \<open>10FFFF\<close>.
\<close>

fun utf8_code_point :: "nat list \<Rightarrow> nat option" where
  "utf8_code_point [b1, b2] =
     (let V = (b1 - 0xC0) * 0x40 + (b2 - 0x80) in
      if isContinuation b2 \<and> 0x80 \<le> V then Some V else None)"
| "utf8_code_point [b1, b2, b3] =
     (let V = (b1 - 0xE0) * 0x1000 + (b2 - 0x80) * 0x40 + (b3 - 0x80) in
      if isContinuation b2 \<and> isContinuation b3 \<and> 0x800 \<le> V \<and> \<not> (0xD800 \<le> V \<and> V \<le> 0xDFFF)
      then Some V else None)"
| "utf8_code_point [b1, b2, b3, b4] =
     (let V = (b1 - 0xF0) * 0x40000 + (b2 - 0x80) * 0x1000 + (b3 - 0x80) * 0x40 + (b4 - 0x80) in
      if isContinuation b2 \<and> isContinuation b3 \<and> isContinuation b4 \<and> 0x10000 \<le> V \<and> V \<le> 0x10FFFF
      then Some V else None)"
| "utf8_code_point _ = None"

definition UTF16EncodeCodePoint :: "nat \<Rightarrow> jsstring" where
  "UTF16EncodeCodePoint cp =
     (if cp \<le> 0xFFFF then [of_nat cp]
      else [of_nat ((cp - 0x10000) div 0x400 + 0xD800),
            of_nat ((cp - 0x10000) mod 0x400 + 0xDC00)])"

fun decodeURIComponent :: "jsstring \<Rightarrow> error + jsstring" where
  "decodeURIComponent [] = Inr []"
| "decodeURIComponent (c # cs) =
     (if c \<noteq> 0x25 then
        bind_result (decodeURIComponent cs) (\<lambda>r. Inr (c # r))
      else
        (case ParseHexOctet (take 2 cs) of
           None \<Rightarrow> Inl URIError
         | Some B \<Rightarrow>
             (let n = leading_ones B in
              if n = 0 then
                bind_result (decodeURIComponent (drop 2 cs)) (\<lambda>r. Inr (of_nat B # r))
              else if n = 1 \<or> n > 4 then Inl URIError
              else
                (case continuation_octets (n - 1) (drop 2 cs) of
                   None \<Rightarrow> Inl URIError
                 | Some Octets \<Rightarrow>
                     (case utf8_code_point (B # Octets) of
                        None \<Rightarrow> Inl URIError
                      | Some V \<Rightarrow>
                          bind_result (decodeURIComponent (drop (2 + 3 * (n - 1)) cs))
                            (\<lambda>r. Inr (UTF16EncodeCodePoint V @ r)))))))"

section \<open>The cookie codec\<close>

text \<open>
  \<^verbatim>\<open>
  const buildCookie = (name: string, value: string, options: string[]) => {
    const encodedValue = encodeURIComponent(value);
    return [`${name}=${encodedValue}`, ...options].join("; ");
  };
  \<close>
\<close>

definition buildCookie :: "jsstring \<Rightarrow> jsstring \<Rightarrow> jsstring list \<Rightarrow> error + jsstring" where
  "buildCookie name val options =
     bind_result (encodeURIComponent val)
       (\<lambda>encodedValue. Inr (join (js ''; '') ((name @ js ''='' @ encodedValue) # options)))"

text \<open>
  The result object of \<open>parseCookies\<close> is a plain object: a map from property names to
  strings. An assignment \<open>result[key] = v\<close> creates or overwrites the property, except for
  the key \<open>__proto__\<close>, where it reaches the setter of \<open>Object.prototype\<close>, which ignores a
  string.
\<close>

type_synonym cookie_jar = "jsstring \<rightharpoonup> jsstring"

definition assign :: "cookie_jar \<Rightarrow> jsstring \<Rightarrow> jsstring \<Rightarrow> cookie_jar" where
  "assign result key v = (if key = js ''__proto__'' then result else result(key \<mapsto> v))"

text \<open>
  \<^verbatim>\<open>
  const parseCookies = (cookieHeader?: string | null) => {
    const result: Record<string, string> = {};
    if (!cookieHeader) return result;
    const parts = cookieHeader.split(";");
    for (const part of parts) {
      const [rawKey, ...rawValue] = part.trim().split("=");
      if (!rawKey) continue;
      result[rawKey] = decodeURIComponent(rawValue.join("="));
    }
    return result;
  };
  \<close>
  The body of the loop is \<open>parse_part\<close>, the loop is \<open>parse_parts\<close>. \<open>split\<close> never returns
  an empty array; if it did, \<open>rawKey\<close> would be \<open>undefined\<close> and the part would be skipped.
\<close>

definition parse_part :: "cookie_jar \<Rightarrow> jsstring \<Rightarrow> error + cookie_jar" where
  "parse_part result part =
     (case split_on 0x3D (trim part) of
        [] \<Rightarrow> Inr result
      | rawKey # rawValue \<Rightarrow>
          if rawKey = [] then Inr result
          else bind_result (decodeURIComponent (join (js ''='') rawValue))
                 (\<lambda>v. Inr (assign result rawKey v)))"

fun parse_parts :: "cookie_jar \<Rightarrow> jsstring list \<Rightarrow> error + cookie_jar" where
  "parse_parts result [] = Inr result"
| "parse_parts result (part # parts) =
     bind_result (parse_part result part) (\<lambda>result'. parse_parts result' parts)"

definition parseCookies :: "jsstring option \<Rightarrow> error + cookie_jar" where
  "parseCookies cookieHeader =
     (case cookieHeader of
        None \<Rightarrow> Inr Map.empty
      | Some h \<Rightarrow> if h = [] then Inr Map.empty else parse_parts Map.empty (split_on 0x3B h))"

subsection \<open>Notions in which the properties of the codec are stated\<close>

text \<open>A string without unpaired surrogates (\<open>String.prototype.isWellFormed\<close>).\<close>

fun isWellFormed :: "jsstring \<Rightarrow> bool" where
  "isWellFormed [] = True"
| "isWellFormed [c] = (\<not> isLeadingSurrogate c \<and> \<not> isTrailingSurrogate c)"
| "isWellFormed (c # d # cs) =
     (if isLeadingSurrogate c then isTrailingSurrogate d \<and> isWellFormed cs
      else \<not> isTrailingSurrogate c \<and> isWellFormed (d # cs))"

text \<open>A Unicode scalar value: a code point that is not a surrogate.\<close>

definition isScalar :: "nat \<Rightarrow> bool" where
  "isScalar cp \<longleftrightarrow> cp < 0x110000 \<and> \<not> (0xD800 \<le> cp \<and> cp \<le> 0xDFFF)"

text \<open>
  The key and the value that \<open>parseCookies\<close> reads from one \<open>;\<close>-separated part, and the
  parts of an attribute list after \<open>buildCookie\<close> has joined it into a header.
\<close>

definition part_key :: "jsstring \<Rightarrow> jsstring" where
  "part_key part = takeWhile (\<lambda>c. c \<noteq> 0x3D) (trim part)"

definition part_value :: "jsstring \<Rightarrow> jsstring" where
  "part_value part = join (js ''='') (tl (split_on 0x3D (trim part)))"

definition attribute_parts :: "jsstring list \<Rightarrow> jsstring list" where
  "attribute_parts options = concat (map (split_on 0x3B) options)"

text \<open>
  The mapping that \<open>parseCookies\<close> builds from the parts of a header when no value fails to
  decode: the value of a name is the decoded value of the last part with that name; a part
  with an empty name gives nothing, and neither does the name \<open>__proto__\<close>.
\<close>

definition cookie_map :: "jsstring list \<Rightarrow> cookie_jar" where
  "cookie_map parts key =
     (if key = [] \<or> key = js ''__proto__'' then None
      else case filter (\<lambda>p. part_key p = key) parts of
             [] \<Rightarrow> None
           | p # ps \<Rightarrow>
               (case decodeURIComponent (part_value (last (p # ps))) of
                  Inl _ \<Rightarrow> None
                | Inr v \<Rightarrow> Some v))"

text \<open>A part whose value makes \<open>parseCookies\<close> throw: it has a name, and its value does not decode.\<close>

definition undecodable :: "jsstring \<Rightarrow> bool" where
  "undecodable part \<longleftrightarrow> part_key part \<noteq> [] \<and> decodeURIComponent (part_value part) = Inl URIError"

text \<open>
  \<open>parseCookies(header)[name]\<close>, and \<open>parseCookies(buildCookie(name, value, options))[name]\<close>:
  the string stored under the name, \<open>None\<close> when the result has no entry for it.
\<close>

definition lookup_cookie :: "jsstring option \<Rightarrow> jsstring \<Rightarrow> error + jsstring option" where
  "lookup_cookie header name = bind_result (parseCookies header) (\<lambda>cookies. Inr (cookies name))"

definition round_trip :: "jsstring \<Rightarrow> jsstring \<Rightarrow> jsstring list \<Rightarrow> error + jsstring option" where
  "round_trip name val options =
     bind_result (buildCookie name val options) (\<lambda>header. lookup_cookie (Some header) name)"

text \<open>The attributes of a \<open>Set-Cookie\<close> header: its \<open>;\<close>-separated parts after the first, trimmed.\<close>

definition cookie_attributes :: "jsstring \<Rightarrow> jsstring list" where
  "cookie_attributes header = map trim (tl (split_on 0x3B header))"

section \<open>Configuration\<close>

text \<open>
  \<^verbatim>\<open>
  const JWT_SECRET = process.env.JWT_SECRET;
  const NODE_ENV = process.env.NODE_ENV ?? "development";
  const AUTH_COOKIE = "auth_token";
  const JWT_EXPIRES_IN = "1d";
  \<close>
  The process-wide constants read from the environment are the fields of \<open>config\<close>.
  \<open>"1d"\<close> is one day in the notation of the token library: 86400 seconds.
\<close>

record config =
  JWT_SECRET :: jsstring
  NODE_ENV :: jsstring

definition AUTH_COOKIE :: jsstring where
  "AUTH_COOKIE = js ''auth_token''"

definition JWT_EXPIRES_IN :: nat where
  "JWT_EXPIRES_IN = 86400"

text \<open>
  \<^verbatim>\<open>
  const cookieOptions = () => {
    const options = ["HttpOnly", "Path=/", "SameSite=Lax", "Max-Age=86400"];
    if (NODE_ENV === "production") { options.push("Secure"); }
    return options;
  };
  \<close>
  and \<open>clearCookieOptions\<close>, the same with \<open>Max-Age=0\<close>.
\<close>

definition cookieOptions :: "config \<Rightarrow> jsstring list" where
  "cookieOptions cfg =
     (let options = [js ''HttpOnly'', js ''Path=/'', js ''SameSite=Lax'', js ''Max-Age=86400'']
      in if NODE_ENV cfg = js ''production'' then options @ [js ''Secure''] else options)"

definition clearCookieOptions :: "config \<Rightarrow> jsstring list" where
  "clearCookieOptions cfg =
     (let options = [js ''HttpOnly'', js ''Path=/'', js ''SameSite=Lax'', js ''Max-Age=0'']
      in if NODE_ENV cfg = js ''production'' then options @ [js ''Secure''] else options)"

section \<open>The credential store\<close>

text \<open>
  A row of the \<open>users\<close> table as the query selects it: \<open>id, username, password_hash, name\<close>.
  The driver returns an integer column as a number and a text column as a string; a
  column that is NULL is \<open>None\<close>.
\<close>

datatype pg_id = IdNumber int | IdText jsstring

record user_row =
  row_id :: pg_id
  row_username :: jsstring
  row_password_hash :: "jsstring option"
  row_name :: "jsstring option"

datatype pool = Pool "user_row list" | Unreachable

text \<open>
  \<^verbatim>\<open>
  pool.query("SELECT id, username, password_hash, name FROM users WHERE username = $1 LIMIT 1",
             [username])
  \<close>
  gives \<open>result.rows\<close>, or rejects when the store cannot be reached.
\<close>

definition pool_query :: "pool \<Rightarrow> jsstring \<Rightarrow> error + user_row list" where
  "pool_query p username_param =
     (case p of
        Unreachable \<Rightarrow> Inl StoreError
      | Pool users \<Rightarrow> Inr (take 1 (filter (\<lambda>r. row_username r = username_param) users)))"

section \<open>The credential verifier\<close>

text \<open>
  The sources call \<open>argon2.verify(user.password_hash, password)\<close> of the \<open>argon2\<close> package,
  which they import and do not contain. The hashing scheme itself is a parameter: for a
  stored hash and a password it says whether the password hashes to it, or \<open>None\<close> when
  the stored hash is malformed.
\<close>

type_synonym hash_scheme = "jsstring \<Rightarrow> jsstring \<Rightarrow> bool option"

text \<open>
  Modelled from the spec: \<open>argon2.verify\<close>, the credential verifier, which is not in the
  sources. The spec (4.2): "Returns false on any mismatch or malformed-hash input; never
  throws for ordinary invalid input -- only a missing/corrupt hash record propagates as a
  system error." A missing hash is a \<open>password_hash\<close> column that is NULL.
\<close>

definition argon2_verify :: "hash_scheme \<Rightarrow> jsstring option \<Rightarrow> jsstring \<Rightarrow> error + bool" where
  "argon2_verify scheme stored_hash password =
     (case stored_hash of
        None \<Rightarrow> Inl HashError
      | Some h \<Rightarrow> (case scheme h password of None \<Rightarrow> Inr False | Some matches \<Rightarrow> Inr matches))"

section \<open>The token service\<close>

text \<open>
  \<^verbatim>\<open>
  type JwtPayload = { sub: string; username: string; name?: string; };
  \<close>
\<close>

record JwtPayload =
  sub :: jsstring
  username :: jsstring
  name :: "jsstring option"

text \<open>
  The sources call \<open>jwt.sign\<close> and \<open>jwt.verify\<close> of the \<open>jsonwebtoken\<close> package, which
  they import and do not contain. The session claims of the spec (3) are the payload with
  \<open>issued_at\<close>, \<open>expires_at\<close>, \<open>issuer\<close> and \<open>audience\<close>; time is in seconds.
\<close>

record claims = JwtPayload +
  issued_at :: nat
  expires_at :: nat
  issuer :: jsstring
  audience :: jsstring

text \<open>
  The serialization and the signature scheme of the tokens are a parameter: \<open>jws_sign\<close>
  writes claims, signed under a secret, as a token; \<open>jws_decode\<close> reads the claims of a
  token, \<open>None\<close> when it is malformed; \<open>jws_verify\<close> checks the signature of a token under
  a secret.
\<close>

record jws =
  jws_sign :: "claims \<Rightarrow> jsstring \<Rightarrow> jsstring"
  jws_decode :: "jsstring \<Rightarrow> claims option"
  jws_verify :: "jsstring \<Rightarrow> jsstring \<Rightarrow> bool"

text \<open>The ways in which \<open>jwt.verify\<close> throws.\<close>

datatype jwt_error = JwtMalformed | InvalidSignature | InvalidIssuer | InvalidAudience | TokenExpired

text \<open>
  Modelled from the spec: \<open>jwt.sign\<close>, which is not in the sources. The spec (4.3):
  "serializes claims, computes a signature keyed by a server-held secret, returns the compact
  encoded result. Fixed issuer/audience values are stamped in, not caller-supplied.
  Expiration is computed as now + fixed session duration".
\<close>

definition jwt_sign ::
  "jws \<Rightarrow> nat \<Rightarrow> JwtPayload \<Rightarrow> jsstring \<Rightarrow> nat \<Rightarrow> jsstring \<Rightarrow> jsstring \<Rightarrow> jsstring" where
  "jwt_sign lib now payload secret expiresIn iss aud =
     jws_sign lib
       \<lparr>sub = sub payload, username = username payload, name = name payload,
        issued_at = now, expires_at = now + expiresIn, issuer = iss, audience = aud\<rparr>
       secret"

text \<open>
  Modelled from the spec: \<open>jwt.verify\<close>, which is not in the sources. The spec (4.3):
  "decodes, checks signature validity (reject on any mismatch), checks issuer == expected,
  audience == expected, expires_at > now. All checks must pass; first failing check
  determines rejection".
\<close>

definition jwt_verify ::
  "jws \<Rightarrow> nat \<Rightarrow> jsstring \<Rightarrow> jsstring \<Rightarrow> jsstring \<Rightarrow> jsstring \<Rightarrow> jwt_error + claims" where
  "jwt_verify lib now token secret iss aud =
     (case jws_decode lib token of
        None \<Rightarrow> Inl JwtMalformed
      | Some c \<Rightarrow>
          if \<not> jws_verify lib token secret then Inl InvalidSignature
          else if issuer c \<noteq> iss then Inl InvalidIssuer
          else if audience c \<noteq> aud then Inl InvalidAudience
          else if \<not> now < expires_at c then Inl TokenExpired
          else Inr c)"

text \<open>
  \<^verbatim>\<open>
  const signToken = (payload: JwtPayload) => {
    return jwt.sign(payload, JWT_SECRET, {
      expiresIn: JWT_EXPIRES_IN, issuer: "web_test", audience: "web_test_frontend" });
  };
  const verifyToken = (token: string) => {
    return jwt.verify(token, JWT_SECRET, {
      issuer: "web_test", audience: "web_test_frontend" }) as JwtPayload;
  };
  \<close>
  \<open>verifyToken\<close> throws when \<open>jwt.verify\<close> does: the \<open>Inl\<close> results.
\<close>

definition signToken :: "config \<Rightarrow> jws \<Rightarrow> nat \<Rightarrow> JwtPayload \<Rightarrow> jsstring" where
  "signToken cfg lib now payload =
     jwt_sign lib now payload (JWT_SECRET cfg) JWT_EXPIRES_IN (js ''web_test'') (js ''web_test_frontend'')"

definition verifyToken :: "config \<Rightarrow> jws \<Rightarrow> nat \<Rightarrow> jsstring \<Rightarrow> jwt_error + claims" where
  "verifyToken cfg lib now token =
     jwt_verify lib now token (JWT_SECRET cfg) (js ''web_test'') (js ''web_test_frontend'')"

section \<open>The routes\<close>

text \<open>
  A response is the status (200 unless the handler sets it), the \<open>Set-Cookie\<close> header when
  the handler sets one, and the body. A handler also leaves the list of the calls it made
  to its collaborators, in order; a handler that throws is an \<open>Inl\<close> result.
\<close>

datatype json = JNull | JBool bool | JNumber int | JString jsstring | JObject "(string \<times> json) list"

record response =
  status :: nat
  set_cookie :: "jsstring option"
  response_body :: json

datatype call =
  PoolQuery jsstring
  | Argon2Verify "jsstring option" jsstring
  | JwtSign JwtPayload
  | JwtVerify jsstring

type_synonym run = "call list \<times> (error + response)"

record LoginBody =
  body_username :: "jsstring option"
  body_password :: "jsstring option"

text \<open>\<open>String(user.id)\<close>: a number in decimal, a string as it is.\<close>

fun decimal :: "nat \<Rightarrow> jsstring" where
  "decimal n = (if n < 10 then [of_nat (0x30 + n)]
                else decimal (n div 10) @ [of_nat (0x30 + n mod 10)])"

declare decimal.simps [simp del]

definition String :: "pg_id \<Rightarrow> jsstring" where
  "String v =
     (case v of
        IdNumber n \<Rightarrow> if n < 0 then 0x2D # decimal (nat (- n)) else decimal (nat n)
      | IdText s \<Rightarrow> s)"

definition id_json :: "pg_id \<Rightarrow> json" where
  "id_json v = (case v of IdNumber n \<Rightarrow> JNumber n | IdText s \<Rightarrow> JString s)"

definition nullable :: "jsstring option \<Rightarrow> json" where
  "nullable v = (case v of None \<Rightarrow> JNull | Some s \<Rightarrow> JString s)"

definition error_body :: "string \<Rightarrow> json" where
  "error_body message = JObject [(''error'', JString (js message))]"

text \<open>
  \<^verbatim>\<open>
  .post("/api/login", async ({ body, set }) => {
    const { username, password } = (body ?? {}) as LoginBody;
    if (!username || !password) {
      set.status = 400;
      return { error: "Username and password are required" };
    }
    const result = await pool.query("SELECT ... WHERE username = $1 LIMIT 1", [username]);
    const user = result.rows[0];
    if (!user) {
      set.status = 401;
      return { error: "Invalid username or password" };
    }
    const isValid = await argon2.verify(user.password_hash, password);
    if (!isValid) {
      set.status = 401;
      return { error: "Invalid username or password" };
    }
    const token = signToken({
      sub: String(user.id), username: user.username, name: user.name ?? undefined });
    set.headers["Set-Cookie"] = buildCookie(AUTH_COOKIE, token, cookieOptions());
    return { user: { id: user.id, username: user.username, name: user.name } };
  })
  \<close>
  \<open>now\<close> is the clock at the time of the request. The variables \<open>username\<close> and \<open>password\<close>
  of the source are \<open>username'\<close> and \<open>password'\<close> here.
\<close>

definition api_login ::
  "config \<Rightarrow> pool \<Rightarrow> hash_scheme \<Rightarrow> jws \<Rightarrow> nat \<Rightarrow> LoginBody option \<Rightarrow> run" where
  "api_login cfg db scheme lib now body =
     (let b = (case body of None \<Rightarrow> \<lparr>body_username = None, body_password = None\<rparr> | Some b \<Rightarrow> b)
      in
      case (body_username b, body_password b) of
        (Some username', Some password') \<Rightarrow>
          if username' = [] \<or> password' = [] then
            ([], Inr \<lparr>status = 400, set_cookie = None,
                      response_body = error_body ''Username and password are required''\<rparr>)
          else
            (case pool_query db username' of
               Inl e \<Rightarrow> ([PoolQuery username'], Inl e)
             | Inr [] \<Rightarrow>
                 ([PoolQuery username'],
                  Inr \<lparr>status = 401, set_cookie = None,
                       response_body = error_body ''Invalid username or password''\<rparr>)
             | Inr (user # _) \<Rightarrow>
                 (case argon2_verify scheme (row_password_hash user) password' of
                    Inl e \<Rightarrow>
                      ([PoolQuery username', Argon2Verify (row_password_hash user) password'], Inl e)
                  | Inr isValid \<Rightarrow>
                      if \<not> isValid then
                        ([PoolQuery username', Argon2Verify (row_password_hash user) password'],
                         Inr \<lparr>status = 401, set_cookie = None,
                              response_body = error_body ''Invalid username or password''\<rparr>)
                      else
                        (let payload = \<lparr>sub = String (row_id user), username = row_username user,
                                        name = row_name user\<rparr>;
                             token = signToken cfg lib now payload;
                             calls = [PoolQuery username',
                                      Argon2Verify (row_password_hash user) password',
                                      JwtSign payload]
                         in case buildCookie AUTH_COOKIE token (cookieOptions cfg) of
                              Inl e \<Rightarrow> (calls, Inl e)
                            | Inr header \<Rightarrow>
                                (calls,
                                 Inr \<lparr>status = 200, set_cookie = Some header,
                                      response_body = JObject [(''user'', JObject
                                        [(''id'', id_json (row_id user)),
                                         (''username'', JString (row_username user)),
                                         (''name'', nullable (row_name user))])]\<rparr>))))
      | _ \<Rightarrow>
          ([], Inr \<lparr>status = 400, set_cookie = None,
                    response_body = error_body ''Username and password are required''\<rparr>))"

text \<open>
  \<^verbatim>\<open>
  .get("/api/me", ({ headers, set }) => {
    const cookies = parseCookies(headers.cookie);
    const token = cookies[AUTH_COOKIE];
    if (!token) {
      set.status = 401;
      return { error: "Missing session cookie" };
    }
    try {
      const payload = verifyToken(token);
      return { user: { id: payload.sub, username: payload.username, name: payload.name ?? null } };
    } catch {
      set.status = 401;
      return { error: "Invalid or expired session" };
    }
  })
  \<close>
\<close>

definition api_me :: "config \<Rightarrow> jws \<Rightarrow> nat \<Rightarrow> jsstring option \<Rightarrow> run" where
  "api_me cfg lib now cookie =
     (case parseCookies cookie of
        Inl e \<Rightarrow> ([], Inl e)
      | Inr cookies \<Rightarrow>
          (case cookies AUTH_COOKIE of
             None \<Rightarrow>
               ([], Inr \<lparr>status = 401, set_cookie = None,
                         response_body = error_body ''Missing session cookie''\<rparr>)
           | Some token \<Rightarrow>
               if token = [] then
                 ([], Inr \<lparr>status = 401, set_cookie = None,
                           response_body = error_body ''Missing session cookie''\<rparr>)
               else
                 (case verifyToken cfg lib now token of
                    Inr payload \<Rightarrow>
                      ([JwtVerify token],
                       Inr \<lparr>status = 200, set_cookie = None,
                            response_body = JObject [(''user'', JObject
                              [(''id'', JString (sub payload)),
                               (''username'', JString (username payload)),
                               (''name'', nullable (name payload))])]\<rparr>)
                  | Inl _ \<Rightarrow>
                      ([JwtVerify token],
                       Inr \<lparr>status = 401, set_cookie = None,
                            response_body = error_body ''Invalid or expired session''\<rparr>))))"

text \<open>
  \<^verbatim>\<open>
  .post("/api/logout", ({ set }) => {
    set.headers["Set-Cookie"] = buildCookie(AUTH_COOKIE, "", clearCookieOptions());
    return { success: true };
  })
  \<close>
\<close>

definition api_logout :: "config \<Rightarrow> run" where
  "api_logout cfg =
     (case buildCookie AUTH_COOKIE [] (clearCookieOptions cfg) of
        Inl e \<Rightarrow> ([], Inl e)
      | Inr header \<Rightarrow>
          ([], Inr \<lparr>status = 200, set_cookie = Some header,
                    response_body = JObject [(''success'', JBool True)]\<rparr>))"

text \<open>
  The client: a browser that has received \<open>Set-Cookie: name=value; attributes\<close> stores the
  part before the first \<open>;\<close> and presents it as its \<open>Cookie\<close> header.
\<close>

definition presented_cookie :: "jsstring \<Rightarrow> jsstring" where
  "presented_cookie set_cookie_header = takeWhile (\<lambda>c. c \<noteq> 0x3B) set_cookie_header"

section \<open>Sample data\<close>

text \<open>
  A production configuration, a store with the user \<open>alice\<close>, and stand-ins for the hashing
  scheme and the token serialization, on which the routes can be run.
\<close>

definition prod_cfg :: config where
  "prod_cfg = \<lparr>JWT_SECRET = js ''s3cret'', NODE_ENV = js ''production''\<rparr>"

definition alice :: user_row where
  "alice = \<lparr>row_id = IdNumber 1, row_username = js ''alice'',
            row_password_hash = Some (js ''$argon2id$alice''), row_name = None\<rparr>"

definition sample_pool :: pool where
  "sample_pool = Pool [alice]"

text \<open>The stored hash of \<open>alice\<close> is the hash of \<open>correct-pw\<close>; any other string is no hash.\<close>

definition sample_scheme :: hash_scheme where
  "sample_scheme h password =
     (if h = js ''$argon2id$alice'' then Some (password = js ''correct-pw'') else None)"

text \<open>The claims of the token that a login of \<open>alice\<close> at time 1000 issues.\<close>

definition alice_claims :: claims where
  "alice_claims = \<lparr>sub = js ''1'', username = js ''alice'', name = None,
                   issued_at = 1000, expires_at = 87400,
                   issuer = js ''web_test'', audience = js ''web_test_frontend''\<rparr>"

text \<open>
  A token table: \<open>alice.token\<close> carries \<open>alice_claims\<close> signed under \<open>s3cret\<close>,
  \<open>forged.token\<close> carries the same claims under another secret, anything else is malformed.
\<close>

definition sample_jws :: jws where
  "sample_jws =
     \<lparr>jws_sign = (\<lambda>c secret. if c = alice_claims
                                then (if secret = js ''s3cret'' then js ''alice.token''
                                      else js ''forged.token'')
                                else js ''other''),
      jws_decode = (\<lambda>token. if token = js ''alice.token'' \<or> token = js ''forged.token''
                              then Some alice_claims else None),
      jws_verify = (\<lambda>token secret. token = js ''alice.token'' \<and> secret = js ''s3cret'')\<rparr>"

text \<open>Two more rows: one whose stored hash is no hash, one whose username is the empty string.\<close>

definition malformed_hash_user :: user_row where
  "malformed_hash_user = \<lparr>row_id = IdNumber 2, row_username = js ''bob'',
                          row_password_hash = Some (js ''not-a-hash''), row_name = None\<rparr>"


section \<open>Percent-encoding: decoding inverts encoding\<close>

lemma unat_hex_digit: "d < 16 \<Longrightarrow> unat (hex_digit d) = (if d < 10 then 0x30 + d else 0x37 + d)"
  by (simp add: hex_digit_def of_nat_inverse)

lemma hex_value_hex_digit: "d < 16 \<Longrightarrow> hex_value (hex_digit d) = Some d"
  by (simp add: hex_value_def unat_hex_digit Let_def)

lemma ParseHexOctet_escape:
  assumes "b < 256"
  shows "ParseHexOctet [hex_digit (b div 16), hex_digit (b mod 16)] = Some b"
proof -
  have "b div 16 < 16" using assms by simp
  moreover have "b mod 16 < 16" by simp
  ultimately show ?thesis by (simp add: hex_value_hex_digit)
qed

lemma continuation_octets_escape:
  "\<forall>b \<in> set bs. b < 256 \<Longrightarrow>
   continuation_octets (length bs) (concat (map escape_octet bs) @ r) = Some bs"
  by (induction bs) (simp_all add: escape_octet_def ParseHexOctet_escape del: ParseHexOctet.simps)

lemma length_escaped: "length (concat (map escape_octet bs)) = 3 * length bs"
  by (induction bs) (simp_all add: escape_octet_def)

lemma drop_escape:
  "drop (3 * length bs) (concat (map escape_octet bs) @ r) = r"
  by (simp add: length_escaped)

lemma sextets_2: "(x::nat) div 64 * 4096 + x mod 64 * 64 = x * 64"
  using div_mult_mod_eq [of x 64] by linarith

lemma sextets_3: "(cp::nat) div 4096 * 4096 + cp div 64 mod 64 * 64 + cp mod 64 = cp"
proof -
  have "cp div 4096 = cp div 64 div 64" by (simp add: div_mult2_eq)
  then show ?thesis
    using sextets_2 [of "cp div 64"] div_mult_mod_eq [of cp 64] by linarith
qed

lemma sextets_4:
  "(cp::nat) div 262144 * 262144 + cp div 4096 mod 64 * 4096 + cp div 64 mod 64 * 64 + cp mod 64 = cp"
proof -
  have "cp div 262144 = cp div 4096 div 64" by (simp add: div_mult2_eq)
  then show ?thesis
    using div_mult_mod_eq [of "cp div 4096" 64] sextets_3 [of cp] by linarith
qed

lemma isContinuation_mod: "isContinuation (0x80 + x mod 0x40)"
  using mod_less_divisor [of 64 x] unfolding isContinuation_def by linarith

lemma continuation_octet_less: "0x80 + x mod 0x40 < (256::nat)"
  using mod_less_divisor [of 64 x] by linarith

lemma utf8_octets_cases:
  assumes "isScalar cp"
  shows "(cp < 0x80 \<and> utf8_octets cp = [cp])
       \<or> (0x80 \<le> cp \<and> (\<exists>b bs. utf8_octets cp = b # bs \<and> b < 256 \<and> (\<forall>x\<in>set bs. x < 256)
            \<and> 2 \<le> leading_ones b \<and> leading_ones b \<le> 4 \<and> leading_ones b = Suc (length bs)
            \<and> utf8_code_point (b # bs) = Some cp))"
proof -
  consider "cp < 0x80" | "0x80 \<le> cp" "cp < 0x800" | "0x800 \<le> cp" "cp < 0x10000" | "0x10000 \<le> cp"
    by linarith
  then show ?thesis
  proof cases
    case 1 then show ?thesis by (simp add: utf8_octets_def)
  next
    case 2
    have "cp div 64 < 32" "2 \<le> cp div 64" using 2 by auto
    then show ?thesis using 2
      by (simp add: utf8_octets_def leading_ones_def isContinuation_mod continuation_octet_less Let_def) 
  next
    case 3
    have "cp div 4096 < 16" using 3 by auto
    then show ?thesis using 3 assms sextets_3 [of cp]
      by (simp add: utf8_octets_def leading_ones_def isContinuation_mod continuation_octet_less Let_def isScalar_def) 
  next
    case 4
    have "cp div 262144 < 8" using 4 assms by (auto simp: isScalar_def)
    then show ?thesis using 4 assms sextets_4 [of cp]
      by (simp add: utf8_octets_def leading_ones_def isContinuation_mod continuation_octet_less Let_def isScalar_def) 
  qed
qed


lemma decode_escaped:
  assumes "isScalar cp"
  shows "decodeURIComponent (concat (map escape_octet (utf8_octets cp)) @ r)
         = bind_result (decodeURIComponent r) (\<lambda>r'. Inr (UTF16EncodeCodePoint cp @ r'))"
proof -
  from utf8_octets_cases [OF assms] show ?thesis
  proof (elim disjE conjE exE)
    assume small: "cp < 0x80" and oct: "utf8_octets cp = [cp]"
    have "ParseHexOctet [hex_digit (cp div 16), hex_digit (cp mod 16)] = Some cp"
      using small by (intro ParseHexOctet_escape) simp
    then show ?thesis using small
      by (simp add: oct escape_octet_def leading_ones_def UTF16EncodeCodePoint_def
          del: ParseHexOctet.simps)
  next
    fix b bs
    assume oct: "utf8_octets cp = b # bs" and b: "b < 256" and bs: "\<forall>x\<in>set bs. x < 256"
      and n: "2 \<le> leading_ones b" "leading_ones b \<le> 4" "leading_ones b = Suc (length bs)"
      and V: "utf8_code_point (b # bs) = Some cp"
    have hex: "ParseHexOctet [hex_digit (b div 16), hex_digit (b mod 16)] = Some b"
      using b by (rule ParseHexOctet_escape)
    have cont: "continuation_octets (length bs) (concat (map escape_octet bs) @ r) = Some bs"
      using bs by (rule continuation_octets_escape)
    have ne: "bs \<noteq> []" using n by auto
    have "decodeURIComponent (0x25 # hex_digit (b div 16) # hex_digit (b mod 16) #
            concat (map escape_octet bs) @ r)
          = bind_result (decodeURIComponent r) (\<lambda>r'. Inr (UTF16EncodeCodePoint cp @ r'))"
      using n ne by (simp add: hex cont V length_escaped Let_def
          del: ParseHexOctet.simps utf8_code_point.simps)
    then show ?thesis by (simp add: oct escape_octet_def)
  qed
qed

lemma CodePointAt_paired:
  assumes "\<not> IsUnpairedSurrogate (CodePointAt c cs)"
  shows "isScalar (CodePoint (CodePointAt c cs))"
    and "UTF16EncodeCodePoint (CodePoint (CodePointAt c cs))
           @ drop (CodeUnitCount (CodePointAt c cs) - 1) cs = c # cs"
proof -
  have lt: "unat c < 65536" using unsigned_less [of c] by simp
  show "isScalar (CodePoint (CodePointAt c cs))"
  proof (cases "isLeadingSurrogate c")
    case False
    then show ?thesis using assms lt
      by (auto simp: CodePointAt_def isScalar_def isLeadingSurrogate_def isTrailingSurrogate_def
          split: if_splits)
  next
    case True
    then show ?thesis using assms
      by (auto simp: CodePointAt_def isScalar_def isLeadingSurrogate_def isTrailingSurrogate_def
          UTF16SurrogatePairToCodePoint_def split: if_splits)
  qed
  show "UTF16EncodeCodePoint (CodePoint (CodePointAt c cs))
           @ drop (CodeUnitCount (CodePointAt c cs) - 1) cs = c # cs"
  proof (cases "isLeadingSurrogate c")
    case False
    then show ?thesis using assms lt
      by (auto simp: CodePointAt_def UTF16EncodeCodePoint_def split: if_splits)
  next
    case True
    then obtain d ds where cs: "cs = d # ds" and d: "isTrailingSurrogate d"
      using assms by (cases cs) (auto simp: CodePointAt_def split: if_splits)
    have nt: "\<not> isTrailingSurrogate c"
      using True by (simp add: isLeadingSurrogate_def isTrailingSurrogate_def)
    define l where "l = unat c - 0xD800"
    define t where "t = unat d - 0xDC00"
    have l: "unat c = l + 0xD800" and t: "unat d = t + 0xDC00" and t_less: "t < 0x400"
      using True d by (auto simp: l_def t_def isLeadingSurrogate_def isTrailingSurrogate_def)
    have cp: "CodePoint (CodePointAt c cs) = l * 0x400 + t + 0x10000"
      using True nt d by (simp add: CodePointAt_def cs UTF16SurrogatePairToCodePoint_def l_def t_def)
    have "(l * 0x400 + t) div 0x400 = l" "(l * 0x400 + t) mod 0x400 = t"
      using t_less by simp_all
    then have "UTF16EncodeCodePoint (l * 0x400 + t + 0x10000) = [of_nat (unat c), of_nat (unat d)]"
      by (simp add: UTF16EncodeCodePoint_def l t)
    then show ?thesis using True nt d
      by (simp add: cp) (simp add: CodePointAt_def cs)
  qed
qed

lemma uriUnescaped_not_percent: "uriUnescaped c \<Longrightarrow> c \<noteq> 0x25"
  by (auto simp: uriUnescaped_def js_def)

lemma bind_result_Inr_iff:
  "bind_result r f = Inr y \<longleftrightarrow> (\<exists>x. r = Inr x \<and> f x = Inr y)"
  by (cases r) (simp_all add: bind_result_def)

lemma decode_encode:
  "encodeURIComponent v = Inr e \<Longrightarrow> decodeURIComponent e = Inr v"
proof (induction v arbitrary: e rule: encodeURIComponent.induct)
  case 1
  then show ?case by simp
next
  case (2 c cs)
  show ?case
  proof (cases "uriUnescaped c")
    case True
    with "2.prems" obtain r where r: "encodeURIComponent cs = Inr r" and e: "e = c # r"
      by (auto simp: bind_result_Inr_iff)
    from "2.IH"(1) [OF True r] show ?thesis
      using uriUnescaped_not_percent [OF True] by (simp add: e bind_result_def)
  next
    case False
    define cp where "cp = CodePointAt c cs"
    from "2.prems" False have paired: "\<not> IsUnpairedSurrogate cp"
      by (auto simp: cp_def Let_def split: if_splits)
    with "2.prems" False obtain r
      where r: "encodeURIComponent (drop (CodeUnitCount cp - 1) cs) = Inr r"
        and e: "e = concat (map escape_octet (utf8_octets (CodePoint cp))) @ r"
      by (auto simp: cp_def Let_def bind_result_Inr_iff)
    have dec: "decodeURIComponent r = Inr (drop (CodeUnitCount cp - 1) cs)"
      using "2.IH"(2) [OF False cp_def paired r] .
    have "decodeURIComponent e
          = Inr (UTF16EncodeCodePoint (CodePoint cp) @ drop (CodeUnitCount cp - 1) cs)"
      unfolding e using CodePointAt_paired(1) [of c cs] paired
      by (simp add: decode_escaped cp_def [symmetric] dec bind_result_def)
    then show ?thesis
      using CodePointAt_paired(2) [of c cs] paired by (simp add: cp_def)
  qed
qed

section \<open>The cookie codec: splitting, joining and the parse loop\<close>

lemma split_on_sep: "split_on sep (sep # s) = [] # split_on sep s"
  by (subst split_on.simps) simp

lemma split_on_Nil: "split_on sep [] = [[]]"
  by (subst split_on.simps) simp

lemma split_on_not_Nil: "split_on sep s \<noteq> []"
  by (subst split_on.simps) (simp split: list.splits)

lemma split_on_other:
  assumes "c \<noteq> sep"
  shows "split_on sep (c # s) = (c # hd (split_on sep s)) # tl (split_on sep s)"
proof -
  have A: "split_on sep (c # s) =
             (case dropWhile (\<lambda>c. c \<noteq> sep) s of
                [] \<Rightarrow> [c # takeWhile (\<lambda>c. c \<noteq> sep) s]
              | _ # rest \<Rightarrow> (c # takeWhile (\<lambda>c. c \<noteq> sep) s) # split_on sep rest)"
    using assms by (subst split_on.simps) (cases "dropWhile (\<lambda>c. c \<noteq> sep) s"; simp del: dropWhile_eq_Nil_conv)
  have B: "split_on sep s =
             (case dropWhile (\<lambda>c. c \<noteq> sep) s of
                [] \<Rightarrow> [takeWhile (\<lambda>c. c \<noteq> sep) s]
              | _ # rest \<Rightarrow> takeWhile (\<lambda>c. c \<noteq> sep) s # split_on sep rest)"
    by (rule split_on.simps)
  show ?thesis
    by (cases "dropWhile (\<lambda>c. c \<noteq> sep) s") (simp_all add: A B del: dropWhile_eq_Nil_conv)
qed

lemma hd_split_on: "hd (split_on sep s) = takeWhile (\<lambda>c. c \<noteq> sep) s"
  by (subst split_on.simps) (simp split: list.splits)

lemma split_on_no_sep: "sep \<notin> set s \<Longrightarrow> split_on sep s = [s]"
  by (induction s) (auto simp: split_on_Nil split_on_other)

lemma split_on_append:
  "split_on sep (x @ sep # y) = split_on sep x @ split_on sep y"
proof (induction x)
  case Nil
  show ?case by (simp add: split_on_Nil split_on_sep)
next
  case (Cons c x)
  show ?case
  proof (cases "c = sep")
    case True
    then show ?thesis using Cons by (simp add: split_on_sep)
  next
    case False
    then show ?thesis using Cons split_on_not_Nil [of sep x]
      by (simp add: split_on_other)
  qed
qed

lemma join_split_on: "join [sep] (split_on sep s) = s"
proof (induction s)
  case Nil
  show ?case by (simp add: split_on_Nil)
next
  case (Cons c s)
  obtain p ps where sp: "split_on sep s = p # ps"
    using split_on_not_Nil [of sep s] by (cases "split_on sep s") auto
  show ?case
  proof (cases "c = sep")
    case True
    then show ?thesis using Cons by (simp add: split_on_sep sp)
  next
    case False
    then show ?thesis using Cons by (cases ps) (simp_all add: split_on_other sp)
  qed
qed

lemma bind_result_Inl_iff:
  "bind_result r f = Inl e \<longleftrightarrow> r = Inl e \<or> (\<exists>x. r = Inr x \<and> f x = Inl e)"
  by (cases r) (simp_all add: bind_result_def)

lemma decode_error_kind: "decodeURIComponent s = Inl e \<Longrightarrow> e = URIError"
proof (induction s rule: decodeURIComponent.induct)
  case 1
  then show ?case by simp
next
  case (2 c cs)
  then show ?case
    by (auto simp: bind_result_Inl_iff Let_def split: if_splits option.splits
        simp del: ParseHexOctet.simps utf8_code_point.simps)
qed


lemma parse_part_eq:
  "parse_part result part =
     (if part_key part = [] then Inr result
      else bind_result (decodeURIComponent (part_value part))
             (\<lambda>v. Inr (assign result (part_key part) v)))"
proof -
  obtain k vs where sp: "split_on 0x3D (trim part) = k # vs"
    using split_on_not_Nil [of "0x3D" "trim part"] by (cases "split_on 0x3D (trim part)") auto
  have "k = part_key part"
    using hd_split_on [of "0x3D" "trim part"] by (simp add: sp part_key_def)
  moreover have "join (js ''='') vs = part_value part"
    by (simp add: part_value_def sp)
  ultimately show ?thesis by (simp add: parse_part_def sp)
qed

lemma decodable_value:
  assumes "\<not> undecodable q" and "part_key q \<noteq> []"
  obtains v where "decodeURIComponent (part_value q) = Inr v"
proof (cases "decodeURIComponent (part_value q)")
  case (Inl e)
  then have "e = URIError" by (rule decode_error_kind)
  with Inl assms show ?thesis by (simp add: undecodable_def)
next
  case (Inr v)
  then show ?thesis by (rule that)
qed

lemma cookie_map_Nil: "cookie_map [] = Map.empty"
  by (rule ext) (simp add: cookie_map_def)

lemma cookie_map_skip:
  "part_key p = [] \<Longrightarrow> cookie_map (p # ps) = cookie_map ps"
  by (rule ext) (auto simp: cookie_map_def)

lemma cookie_map_Cons:
  assumes "part_key p \<noteq> []" and "decodeURIComponent (part_value p) = Inr v"
    and "\<forall>q\<in>set ps. \<not> undecodable q"
  shows "assign result (part_key p) v ++ cookie_map ps = result ++ cookie_map (p # ps)"
proof (rule ext)
  fix k
  show "(assign result (part_key p) v ++ cookie_map ps) k = (result ++ cookie_map (p # ps)) k"
  proof (cases "k = [] \<or> k = js ''__proto__''")
    case True
    then show ?thesis using assms(1)
      by (auto simp: map_add_def cookie_map_def assign_def)
  next
    case False
    show ?thesis
    proof (cases "part_key p = k")
      case other: False
      then have "k \<noteq> part_key p" by auto
      then show ?thesis using False
        by (auto simp: map_add_def cookie_map_def assign_def split: option.splits)
    next
      case same: True
      show ?thesis
      proof (cases "filter (\<lambda>q. part_key q = k) ps")
        case Nil
        then show ?thesis using False same assms(2)
          by (simp add: map_add_def cookie_map_def assign_def)
      next
        case (Cons q qs)
        have "last (q # qs) \<in> set (filter (\<lambda>q. part_key q = k) ps)"
          unfolding Cons by (rule last_in_set) simp
        then have "\<not> undecodable (last (q # qs))" and "part_key (last (q # qs)) \<noteq> []"
          using assms(3) False by auto
        then obtain w where "decodeURIComponent (part_value (last (q # qs))) = Inr w"
          by (rule decodable_value)
        moreover have "last (p # q # qs) = last (q # qs)" by simp
        ultimately show ?thesis using False same Cons
          by (simp add: map_add_def cookie_map_def assign_def del: last.simps)
      qed
    qed
  qed
qed

lemma parse_parts_spec:
  "parse_parts result parts =
     (if \<exists>p\<in>set parts. undecodable p then Inl URIError
      else Inr (result ++ cookie_map parts))"
proof (induction parts arbitrary: result)
  case Nil
  show ?case by (simp add: cookie_map_Nil)
next
  case (Cons p ps)
  show ?case
  proof (cases "part_key p = []")
    case True
    then show ?thesis
      by (simp add: parse_part_eq bind_result_def Cons.IH cookie_map_skip undecodable_def)
  next
    case False
    show ?thesis
    proof (cases "decodeURIComponent (part_value p)")
      case (Inl e)
      then have "e = URIError" by (rule decode_error_kind)
      then show ?thesis using False Inl
        by (simp add: parse_part_eq bind_result_def undecodable_def)
    next
      case (Inr v)
      show ?thesis
      proof (cases "\<exists>q\<in>set ps. undecodable q")
        case True
        then show ?thesis using False Inr
          by (simp add: parse_part_eq bind_result_def Cons.IH)
      next
        case none: False
        then have "\<forall>q\<in>set ps. \<not> undecodable q" by simp
        from cookie_map_Cons [OF False Inr this] show ?thesis using False Inr none
          by (simp add: parse_part_eq bind_result_def Cons.IH undecodable_def)
      qed
    qed
  qed
qed

text \<open>An equation for \<open>split_on\<close> that computes in one pass over the string.\<close>

lemma split_on_Cons:
  "split_on sep (c # s) =
     (if c = sep then [] # split_on sep s
      else (case split_on sep s of [] \<Rightarrow> [[c]] | p # ps \<Rightarrow> (c # p) # ps))"
  using split_on_not_Nil [of sep s]
  by (cases "split_on sep s") (simp_all add: split_on_sep split_on_other)

lemmas eval_split = split_on_Nil split_on_Cons
lemmas eval_cookie = js_def parseCookies_def lookup_cookie_def parse_part_def trim_def
  isWhiteSpace_def bind_result_def hex_value_def assign_def part_key_def part_value_def
  undecodable_def cookie_map_def

section \<open>What \<open>parseCookies\<close> returns\<close>

subsection \<open>The mapping of a header\<close>

lemma parseCookies_header:
  "parseCookies (Some h) =
     (if h = [] then Inr Map.empty
      else if \<exists>p\<in>set (split_on 0x3B h). undecodable p then Inl URIError
      else Inr (cookie_map (split_on 0x3B h)))"
  by (simp add: parseCookies_def parse_parts_spec)

lemma cookie_map_unnamed:
  "cookie_map parts [] = None" "cookie_map parts (js ''__proto__'') = None"
  by (simp_all add: cookie_map_def)

lemma cookie_map_absent:
  "\<forall>q\<in>set parts. part_key q \<noteq> k \<Longrightarrow> cookie_map parts k = None"
  by (simp add: cookie_map_def filter_empty_conv split: list.splits)

lemma cookie_map_last:
  assumes "k \<noteq> []" and "k \<noteq> js ''__proto__''"
    and "parts = before @ p # after" and "part_key p = k"
    and "\<forall>q\<in>set after. part_key q \<noteq> k"
    and "decodeURIComponent (part_value p) = Inr v"
  shows "cookie_map parts k = Some v"
proof -
  have "filter (\<lambda>q. part_key q = k) after = []"
    using assms(5) by (simp add: filter_empty_conv)
  then have f: "filter (\<lambda>q. part_key q = k) parts = filter (\<lambda>q. part_key q = k) before @ [p]"
    using assms(3,4) by simp
  obtain x xs where xs: "filter (\<lambda>q. part_key q = k) before @ [p] = x # xs"
    by (cases "filter (\<lambda>q. part_key q = k) before @ [p]") simp_all
  have "last (x # xs) = p"
    using xs by (metis last_snoc)
  then show ?thesis
    using assms(1,2,6) xs by (simp add: cookie_map_def f del: last.simps)
qed

subsection \<open>The name and the value of a part\<close>

lemma part_without_eq:
  assumes "0x3D \<notin> set (trim p)"
  shows "part_key p = trim p" and "part_value p = []"
  using assms by (auto simp: part_key_def part_value_def split_on_no_sep)

lemma part_with_eq:
  assumes "0x3D \<in> set (trim p)"
  shows "trim p = part_key p @ 0x3D # part_value p" and "0x3D \<notin> set (part_key p)"
proof -
  obtain k vs where sp: "split_on 0x3D (trim p) = k # vs"
    using split_on_not_Nil [of "0x3D" "trim p"] by (cases "split_on 0x3D (trim p)") auto
  have k: "k = part_key p"
    using hd_split_on [of "0x3D" "trim p"] by (simp add: sp part_key_def)
  show no: "0x3D \<notin> set (part_key p)"
    by (auto simp: part_key_def dest: set_takeWhileD)
  have "vs \<noteq> []"
  proof
    assume "vs = []"
    with join_split_on [of "0x3D" "trim p"] sp k have "trim p = part_key p" by simp
    with no assms show False by simp
  qed
  then obtain w ws where vs: "vs = w # ws" by (cases vs) auto
  have "join [0x3D] (k # vs) = k @ 0x3D # join [0x3D] vs"
    by (simp add: vs)
  moreover have "join [0x3D] vs = part_value p"
    by (simp add: part_value_def sp js_def)
  ultimately show "trim p = part_key p @ 0x3D # part_value p"
    using join_split_on [of "0x3D" "trim p"] sp k by simp
qed

text \<open>
  C2, amended. \<open>parseCookies\<close> of an absent or empty header is the empty mapping. Any other
  header is split at \<open>;\<close>; the name of a part is its trimmed text before the first \<open>=\<close> and
  its value is the text after that \<open>=\<close>, and a part with no \<open>=\<close> has its whole trimmed text
  as name and the empty string as value. \<open>parseCookies\<close> throws URIError exactly when
  some part has a non-empty name and a value that does not percent-decode. Otherwise it
  returns a mapping that has no entry for the empty name and none for the name \<open>__proto__\<close>,
  and for every other name has no entry when no part has that name, and else the decoded
  value of the last part with that name. So a part with an empty name (a blank part too) is
  skipped, the last occurrence of a name wins, and a part with no \<open>=\<close> whose trimmed text is
  neither empty nor \<open>__proto__\<close> is not skipped: it is recorded with the empty string as its
  value, unless a later part has the same name.
\<close>

theorem parseCookies_amended:
  "parseCookies None = Inr Map.empty
   \<and> parseCookies (Some h) =
       (if h = [] then Inr Map.empty
        else if \<exists>p\<in>set (split_on 0x3B h). undecodable p then Inl URIError
        else Inr (cookie_map (split_on 0x3B h)))
   \<and> cookie_map parts [] = None
   \<and> cookie_map parts (js ''__proto__'') = None
   \<and> ((\<forall>q\<in>set parts. part_key q \<noteq> k) \<longrightarrow> cookie_map parts k = None)
   \<and> (k \<noteq> [] \<and> k \<noteq> js ''__proto__'' \<and> parts = before @ p # after \<and> part_key p = k
        \<and> (\<forall>q\<in>set after. part_key q \<noteq> k) \<and> decodeURIComponent (part_value p) = Inr v \<longrightarrow>
        cookie_map parts k = Some v)
   \<and> (0x3D \<in> set (trim q) \<longrightarrow>
        trim q = part_key q @ 0x3D # part_value q \<and> 0x3D \<notin> set (part_key q))
   \<and> (0x3D \<notin> set (trim q) \<longrightarrow>
        part_key q = trim q \<and> part_value q = []
        \<and> decodeURIComponent (part_value q) = Inr [])
   \<and> (0x3D \<notin> set (trim p) \<and> trim p \<noteq> [] \<and> trim p \<noteq> js ''__proto__''
        \<and> parts = before @ p # after \<and> (\<forall>q\<in>set after. part_key q \<noteq> trim p) \<longrightarrow>
        cookie_map parts (trim p) = Some [])"
proof (intro conjI impI)
  show "parseCookies None = Inr Map.empty"
    by (simp add: parseCookies_def)
  show "parseCookies (Some h) =
       (if h = [] then Inr Map.empty
        else if \<exists>p\<in>set (split_on 0x3B h). undecodable p then Inl URIError
        else Inr (cookie_map (split_on 0x3B h)))"
    by (rule parseCookies_header)
  show "cookie_map parts [] = None" and "cookie_map parts (js ''__proto__'') = None"
    by (rule cookie_map_unnamed)+
  show "cookie_map parts k = None" if "\<forall>q\<in>set parts. part_key q \<noteq> k"
    using that by (rule cookie_map_absent)
  show "cookie_map parts k = Some v"
    if "k \<noteq> [] \<and> k \<noteq> js ''__proto__'' \<and> parts = before @ p # after \<and> part_key p = k
        \<and> (\<forall>q\<in>set after. part_key q \<noteq> k) \<and> decodeURIComponent (part_value p) = Inr v"
    using that cookie_map_last [of k parts before p after v] by blast
  show "trim q = part_key q @ 0x3D # part_value q" and "0x3D \<notin> set (part_key q)"
    if "0x3D \<in> set (trim q)"
    using that by (rule part_with_eq)+
  show "part_key q = trim q" and "part_value q = []"
    and "decodeURIComponent (part_value q) = Inr []"
    if "0x3D \<notin> set (trim q)"
    using that by (simp_all add: part_without_eq)
  show "cookie_map parts (trim p) = Some []"
    if "0x3D \<notin> set (trim p) \<and> trim p \<noteq> [] \<and> trim p \<noteq> js ''__proto__''
        \<and> parts = before @ p # after \<and> (\<forall>q\<in>set after. part_key q \<noteq> trim p)"
    using that part_without_eq [of p]
      cookie_map_last [of "trim p" parts before p after "[]"]
    by simp
qed

lemma sample_header_parts: "split_on 0x3B (js ''a=1; b; =3; a=2'') = [js ''a=1'', js '' b'', js '' =3'', js '' a=2'']"
  by (simp add: js_def eval_split)

lemma sample_parts: "part_key (js ''a=1'') = js ''a''" "part_value (js ''a=1'') = js ''1''"
  "part_key (js '' b'') = js ''b''" "part_value (js '' b'') = []"
  "part_key (js '' =3'') = []"
  "part_key (js '' a=2'') = js ''a''" "part_value (js '' a=2'') = js ''2''"
  by (simp_all add: js_def part_key_def part_value_def trim_def isWhiteSpace_def eval_split)

lemma sample_values: "decodeURIComponent (js ''1'') = Inr (js ''1'')" "decodeURIComponent (js ''2'') = Inr (js ''2'')"
  by (simp_all add: js_def bind_result_def)

lemma sample_names: "js ''a'' \<noteq> []" "js ''b'' \<noteq> []" "js ''a'' \<noteq> js ''__proto__''" "js ''b'' \<noteq> js ''__proto__''" "js ''a'' \<noteq> js ''b''"
  "js ''c'' \<noteq> js ''a''" "js ''c'' \<noteq> js ''b''" "js ''c'' \<noteq> []"
  by (simp_all add: js_def)

theorem parseCookies_amended_witness:
  "js ''a=1; b; =3; a=2'' \<noteq> []
   \<and> \<not> (\<exists>p\<in>set (split_on 0x3B (js ''a=1; b; =3; a=2'')). undecodable p)
   \<and> parseCookies (Some (js ''a=1; b; =3; a=2''))
       = Inr (cookie_map (split_on 0x3B (js ''a=1; b; =3; a=2'')))
   \<and> split_on 0x3B (js ''a=1; b; =3; a=2'') = [js ''a=1'', js '' b'', js '' =3''] @ js '' a=2'' # []
   \<and> part_key (js '' a=2'') = js ''a''
   \<and> decodeURIComponent (part_value (js '' a=2'')) = Inr (js ''2'')
   \<and> cookie_map (split_on 0x3B (js ''a=1; b; =3; a=2'')) (js ''a'') = Some (js ''2'')
   \<and> split_on 0x3B (js ''a=1; b; =3; a=2'') = [js ''a=1''] @ js '' b'' # [js '' =3'', js '' a=2'']
   \<and> list_all (\<lambda>q. part_key q \<noteq> js ''b'') [js '' =3'', js '' a=2'']
   \<and> 0x3D \<notin> set (trim (js '' b'')) \<and> part_key (js '' b'') = js ''b''
   \<and> decodeURIComponent (part_value (js '' b'')) = Inr []
   \<and> cookie_map (split_on 0x3B (js ''a=1; b; =3; a=2'')) (js ''b'') = Some []
   \<and> trim (js '' b'') = js ''b'' \<and> trim (js '' b'') \<noteq> [] \<and> trim (js '' b'') \<noteq> js ''__proto__''
   \<and> cookie_map (split_on 0x3B (js ''a=1; b; =3; a=2'')) (trim (js '' b'')) = Some []
   \<and> 0x3D \<in> set (trim (js '' a=2''))
   \<and> trim (js '' a=2'') = js ''a'' @ 0x3D # js ''2''
   \<and> list_all (\<lambda>q. part_key q \<noteq> js ''c'') (split_on 0x3B (js ''a=1; b; =3; a=2''))
   \<and> cookie_map (split_on 0x3B (js ''a=1; b; =3; a=2'')) (js ''c'') = None
   \<and> cookie_map (split_on 0x3B (js ''a=1; b; =3; a=2'')) [] = None"
proof -
  let ?h = "js ''a=1; b; =3; a=2''"
  have ne: "?h \<noteq> []" by (simp add: js_def)
  have tr: "0x3D \<notin> set (trim (js '' b''))" by (simp add: js_def trim_def isWhiteSpace_def)
  have ok: "\<not> (\<exists>p\<in>set (split_on 0x3B ?h). undecodable p)"
    by (simp add: sample_header_parts undecodable_def sample_parts sample_values)
  have sp_a: "split_on 0x3B ?h = [js ''a=1'', js '' b'', js '' =3''] @ js '' a=2'' # []"
    and sp_b: "split_on 0x3B ?h = [js ''a=1''] @ js '' b'' # [js '' =3'', js '' a=2'']"
    by (simp_all add: sample_header_parts)
  have later_b: "list_all (\<lambda>q. part_key q \<noteq> js ''b'') [js '' =3'', js '' a=2'']"
    using sample_names by (simp add: sample_parts) 
  have no_c: "list_all (\<lambda>q. part_key q \<noteq> js ''c'') (split_on 0x3B ?h)"
    using sample_names by (simp add: sample_header_parts sample_parts)
  have dec_a: "decodeURIComponent (part_value (js '' a=2'')) = Inr (js ''2'')"
    by (simp add: sample_parts sample_values)
  note thm_a = parseCookies_amended
    [of ?h "split_on 0x3B ?h" "js ''a''" "[js ''a=1'', js '' b'', js '' =3'']" "js '' a=2''" "[]"
        "js ''2''" "js '' a=2''"]
  note thm_b = parseCookies_amended
    [of ?h "split_on 0x3B ?h" "js ''b''" "[js ''a=1'']" "js '' b''" "[js '' =3'', js '' a=2'']"
        "[]" "js '' b''"]
  note thm_c = parseCookies_amended [of ?h "split_on 0x3B ?h" "js ''c''"]
  have a: "cookie_map (split_on 0x3B ?h) (js ''a'') = Some (js ''2'')"
    using thm_a sp_a dec_a sample_names(1,3) by (simp add: sample_parts)
  have pb: "part_key (js '' b'') = js ''b''" "decodeURIComponent (part_value (js '' b'')) = Inr []"
    using thm_b tr by (simp_all add: sample_parts)
  have b: "cookie_map (split_on 0x3B ?h) (js ''b'') = Some []"
    using thm_b sp_b pb later_b sample_names(2,4) by (simp add: list_all_iff)
  have trb: "trim (js '' b'') = js ''b''" by (simp add: js_def trim_def isWhiteSpace_def)
  have b': "cookie_map (split_on 0x3B ?h) (trim (js '' b'')) = Some []"
    using thm_b sp_b tr later_b sample_names(2,4) by (simp add: list_all_iff trb)
  have tra: "0x3D \<in> set (trim (js '' a=2''))" by (simp add: js_def trim_def isWhiteSpace_def)
  have a': "trim (js '' a=2'') = js ''a'' @ 0x3D # js ''2''"
    using thm_a tra by (simp add: sample_parts)
  have c: "cookie_map (split_on 0x3B ?h) (js ''c'') = None"
    using thm_c no_c by (simp add: list_all_iff)
  have e: "cookie_map (split_on 0x3B ?h) [] = None"
    using thm_c by simp
  have run: "parseCookies (Some ?h) = Inr (cookie_map (split_on 0x3B ?h))"
    using thm_c ne ok by simp
  from ne ok run sp_a sample_parts(6) dec_a a sp_b later_b tr pb b no_c c e
    trb b' tra a' sample_names(2,4)
  show ?thesis by simp
qed

text \<open>
  C2 as stated fails twice: the part \<open>b\<close>, which has no \<open>=\<close>, appears in the result with
  the empty string as its value, and on the header \<open>a=%\<close> \<open>parseCookies\<close> throws.
\<close>

theorem parseCookies_counterexample:
  "lookup_cookie (Some (js ''b'')) (js ''b'') = Inr (Some [])
   \<and> parseCookies (Some (js ''a=%'')) = Inl URIError"
  by (simp add: eval_split eval_cookie)

section \<open>Decoding the header that \<open>buildCookie\<close> writes\<close>

subsection \<open>What \<open>encodeURIComponent\<close> writes\<close>

lemma uriUnescaped_hex_digit: "d < 16 \<Longrightarrow> uriUnescaped (hex_digit d)"
proof -
  assume "d < 16"
  then have "d \<in> {0, 1, 2, 3, 4, 5, 6, 7, 8, 9, 10, 11, 12, 13, 14, 15}" by simp arith
  then show ?thesis by (auto simp: hex_digit_def uriUnescaped_def js_def)
qed

lemma utf8_octets_less: "isScalar cp \<Longrightarrow> b \<in> set (utf8_octets cp) \<Longrightarrow> b < 256"
  using utf8_octets_cases [of cp] by auto

lemma escape_octet_units:
  "b < 256 \<Longrightarrow> c \<in> set (escape_octet b) \<Longrightarrow> uriUnescaped c \<or> c = 0x25"
  by (auto simp: escape_octet_def intro!: uriUnescaped_hex_digit)

lemma encode_units:
  "encodeURIComponent v = Inr e \<Longrightarrow> c \<in> set e \<Longrightarrow> uriUnescaped c \<or> c = 0x25"
proof (induction v arbitrary: e rule: encodeURIComponent.induct)
  case 1
  then show ?case by simp
next
  case (2 u us)
  show ?case
  proof (cases "uriUnescaped u")
    case True
    with "2.prems" obtain r where r: "encodeURIComponent us = Inr r" and e: "e = u # r"
      by (auto simp: bind_result_Inr_iff)
    show ?thesis using "2.IH"(1) [OF True r] "2.prems"(2) True by (auto simp: e)
  next
    case False
    define cp where "cp = CodePointAt u us"
    from "2.prems" False have paired: "\<not> IsUnpairedSurrogate cp"
      by (auto simp: cp_def Let_def split: if_splits)
    with "2.prems" False obtain r
      where r: "encodeURIComponent (drop (CodeUnitCount cp - 1) us) = Inr r"
        and e: "e = concat (map escape_octet (utf8_octets (CodePoint cp))) @ r"
      by (auto simp: cp_def Let_def bind_result_Inr_iff)
    have scalar: "isScalar (CodePoint cp)"
      using CodePointAt_paired(1) [of u us] paired by (simp add: cp_def)
    from "2.prems"(2) consider "c \<in> set r"
      | b where "b \<in> set (utf8_octets (CodePoint cp))" "c \<in> set (escape_octet b)"
      by (auto simp: e)
    then show ?thesis
    proof cases
      case 1
      then show ?thesis using "2.IH"(2) [OF False cp_def paired r] by simp
    next
      case 2
      then show ?thesis using utf8_octets_less [OF scalar] escape_octet_units by blast
    qed
  qed
qed

subsection \<open>Well-formed strings are the ones that encode\<close>

lemma surrogate_exclusive: "isLeadingSurrogate c \<Longrightarrow> \<not> isTrailingSurrogate c"
  by (simp add: isLeadingSurrogate_def isTrailingSurrogate_def)

lemma wellFormed_CodePointAt:
  assumes "isWellFormed (c # cs)"
  shows "\<not> IsUnpairedSurrogate (CodePointAt c cs)"
    and "isWellFormed (drop (CodeUnitCount (CodePointAt c cs) - 1) cs)"
  using assms surrogate_exclusive [of c]
  by (cases cs; auto simp: CodePointAt_def split: if_splits)+

lemma uriUnescaped_not_surrogate:
  "uriUnescaped c \<Longrightarrow> \<not> isLeadingSurrogate c \<and> \<not> isTrailingSurrogate c"
  by (auto simp: uriUnescaped_def js_def isLeadingSurrogate_def isTrailingSurrogate_def)

lemma wellFormed_tail:
  "isWellFormed (c # cs) \<Longrightarrow> \<not> isLeadingSurrogate c \<Longrightarrow> isWellFormed cs"
  by (cases cs) (auto split: if_splits)

lemma encode_wellFormed:
  "isWellFormed v \<Longrightarrow> \<exists>e. encodeURIComponent v = Inr e"
proof (induction v rule: encodeURIComponent.induct)
  case 1
  show ?case by simp
next
  case (2 c cs)
  show ?case
  proof (cases "uriUnescaped c")
    case True
    then have "isWellFormed cs"
      using "2.prems" uriUnescaped_not_surrogate wellFormed_tail by blast
    from "2.IH"(1) [OF True this] show ?thesis using True by (auto simp: bind_result_def)
  next
    case False
    define cp where "cp = CodePointAt c cs"
    have paired: "\<not> IsUnpairedSurrogate cp"
      and rest: "isWellFormed (drop (CodeUnitCount cp - 1) cs)"
      using wellFormed_CodePointAt [OF "2.prems"] by (simp_all add: cp_def)
    from "2.IH"(2) [OF False cp_def paired rest] show ?thesis
      using False paired by (auto simp: bind_result_def Let_def cp_def)
  qed
qed

subsection \<open>The header that \<open>buildCookie\<close> writes, split again\<close>

lemma trim_id:
  assumes "s \<noteq> []" and "\<not> isWhiteSpace (hd s)" and "\<not> isWhiteSpace (last s)"
  shows "trim s = s"
proof -
  have front: "dropWhile isWhiteSpace s = s"
    using assms(1,2) by (cases s) simp_all
  obtain ys y where s: "s = ys @ [y]"
    using assms(1) by (cases s rule: rev_cases) auto
  have "dropWhile isWhiteSpace (rev s) = rev s"
    using assms(3) by (simp add: s)
  then show ?thesis by (simp add: trim_def front)
qed

lemma trim_space: "trim (0x20 # s) = trim s"
  by (simp add: trim_def isWhiteSpace_def)

lemma join_shift: "c # join sep (y # ys) = join sep ((c # y) # ys)"
  by (cases ys) simp_all

lemma split_on_join:
  "split_on 0x3B (join (js ''; '') (x # ys))
   = split_on 0x3B x @ concat (map (\<lambda>y. split_on 0x3B (0x20 # y)) ys)"
proof (induction ys arbitrary: x)
  case Nil
  show ?case by simp
next
  case (Cons y ys)
  have "join (js ''; '') (x # y # ys) = x @ 0x3B # join (js ''; '') ((0x20 # y) # ys)"
    by (simp add: js_def join_shift [symmetric])
  then show ?case by (simp add: split_on_append Cons.IH)
qed

lemma split_on_space:
  "split_on 0x3B (0x20 # y) = (0x20 # hd (split_on 0x3B y)) # tl (split_on 0x3B y)"
  by (rule split_on_other) simp

lemma spaced_part:
  assumes "q' \<in> set (split_on 0x3B (0x20 # y))"
  obtains q where "q \<in> set (split_on 0x3B y)" and "trim q' = trim q"
proof -
  obtain p ps where sp: "split_on 0x3B y = p # ps"
    using split_on_not_Nil [of "0x3B" y] by (cases "split_on 0x3B y") auto
  from assms have "q' = 0x20 # p \<or> q' \<in> set ps"
    by (simp add: split_on_space sp)
  then show ?thesis
  proof
    assume "q' = 0x20 # p"
    then have "trim q' = trim p" by (simp add: trim_space)
    then show ?thesis using that [of p] by (simp add: sp)
  next
    assume "q' \<in> set ps"
    then show ?thesis using that [of q'] by (simp add: sp)
  qed
qed

lemma part_key_trim: "trim q' = trim q \<Longrightarrow> part_key q' = part_key q"
  by (simp add: part_key_def)

lemma undecodable_trim: "trim q' = trim q \<Longrightarrow> undecodable q' = undecodable q"
  by (simp add: undecodable_def part_key_def part_value_def)

lemma header_parts:
  assumes "q' \<in> set (concat (map (\<lambda>y. split_on 0x3B (0x20 # y)) options))"
  obtains q where "q \<in> set (attribute_parts options)"
    and "part_key q' = part_key q" and "undecodable q' = undecodable q"
proof -
  from assms obtain y where y: "y \<in> set options" and q': "q' \<in> set (split_on 0x3B (0x20 # y))"
    by auto
  from q' obtain q where q: "q \<in> set (split_on 0x3B y)" and tr: "trim q' = trim q"
    by (rule spaced_part)
  have "q \<in> set (attribute_parts options)"
    using y q by (auto simp: attribute_parts_def)
  then show ?thesis
    using that part_key_trim [OF tr] undecodable_trim [OF tr] by blast
qed

subsection \<open>The first part: \<open>name=encodedValue\<close>\<close>

lemma uriUnescaped_range: "uriUnescaped c \<Longrightarrow> 0x21 \<le> unat c \<and> unat c \<le> 0x7E"
  by (auto simp: uriUnescaped_def js_def)

lemma isWhiteSpace_range: "isWhiteSpace c \<Longrightarrow> unat c \<le> 0x20 \<or> 0xA0 \<le> unat c"
  by (auto simp: isWhiteSpace_def)

lemma uriUnescaped_separators: "uriUnescaped c \<Longrightarrow> c \<noteq> 0x3B \<and> c \<noteq> 0x3D"
  by (auto simp: uriUnescaped_def js_def)

lemma uriUnescaped_plain:
  assumes "uriUnescaped c \<or> c = 0x25"
  shows "\<not> isWhiteSpace c \<and> c \<noteq> 0x3B \<and> c \<noteq> 0x3D"
  using assms
proof
  assume u: "uriUnescaped c"
  have "\<not> isWhiteSpace c"
    using uriUnescaped_range [OF u] isWhiteSpace_range [of c] by linarith
  then show ?thesis using uriUnescaped_separators [OF u] by simp
next
  assume "c = 0x25"
  then show ?thesis by (simp add: isWhiteSpace_def)
qed

lemma first_part:
  assumes name: "nm \<noteq> []" "\<not> isWhiteSpace (hd nm)" "0x3D \<notin> set nm"
    and enc: "encodeURIComponent val = Inr e"
  shows "part_key (nm @ 0x3D # e) = nm"
    and "part_value (nm @ 0x3D # e) = e"
    and "0x3B \<notin> set nm \<Longrightarrow> 0x3B \<notin> set (nm @ 0x3D # e)"
proof -
  let ?first = "nm @ 0x3D # e"
  have plain: "\<And>c. c \<in> set e \<Longrightarrow> \<not> isWhiteSpace c \<and> c \<noteq> 0x3B \<and> c \<noteq> 0x3D"
    using encode_units [OF enc] uriUnescaped_plain by blast
  have "\<not> isWhiteSpace (last ?first)"
  proof (cases "e = []")
    case True
    then show ?thesis by (simp add: isWhiteSpace_def)
  next
    case False
    then have "last ?first = last e" "last e \<in> set e" by simp_all
    then show ?thesis using plain by simp
  qed
  moreover have "hd ?first = hd nm" using name(1) by simp
  ultimately have tr: "trim ?first = ?first"
    using name(2) by (intro trim_id) simp_all
  show "part_key ?first = nm"
    using name(3) by (simp add: part_key_def tr takeWhile_append)
  have "split_on 0x3D ?first = [nm] @ split_on 0x3D e"
    using name(3) by (simp add: split_on_append split_on_no_sep)
  then show "part_value ?first = e"
    using join_split_on [of "0x3D" e] by (simp add: part_value_def tr js_def)
  show "0x3B \<notin> set nm \<Longrightarrow> 0x3B \<notin> set ?first"
    using plain by auto
qed

lemma round_trip_holds:
  assumes name: "nm \<noteq> []" "\<not> isWhiteSpace (hd nm)" "0x3B \<notin> set nm" "0x3D \<notin> set nm"
      "nm \<noteq> js ''__proto__''"
    and val: "isWellFormed val"
    and attrs: "\<forall>q\<in>set (attribute_parts options). part_key q \<noteq> nm \<and> \<not> undecodable q"
  shows "round_trip nm val options = Inr (Some val)"
proof -
  from encode_wellFormed [OF val] obtain e where enc: "encodeURIComponent val = Inr e" ..
  have dec: "decodeURIComponent e = Inr val" using enc by (rule decode_encode)
  define first where "first = nm @ 0x3D # e"
  define rest where "rest = concat (map (\<lambda>y. split_on 0x3B (0x20 # y)) options)"
  define header where "header = join (js ''; '') (first # options)"
  have key: "part_key first = nm"
    unfolding first_def using name(1,2,4) enc by (rule first_part(1))
  have pv: "part_value first = e"
    unfolding first_def using name(1,2,4) enc by (rule first_part(2))
  have nosemi: "0x3B \<notin> set first"
    unfolding first_def using name(1,2,4) enc name(3) by (rule first_part(3))
  have build: "buildCookie nm val options = Inr header"
    by (simp add: buildCookie_def enc bind_result_def js_def header_def first_def)
  have "split_on 0x3B first = [first]"
    using nosemi by (rule split_on_no_sep)
  then have parts: "split_on 0x3B header = first # rest"
    by (simp add: header_def rest_def split_on_join)
  have others: "part_key q' \<noteq> nm \<and> \<not> undecodable q'" if "q' \<in> set rest" for q'
  proof -
    from that have "q' \<in> set (concat (map (\<lambda>y. split_on 0x3B (0x20 # y)) options))"
      by (simp only: rest_def)
    from header_parts [OF this] obtain q where "q \<in> set (attribute_parts options)"
      and "part_key q' = part_key q" and "undecodable q' = undecodable q" by blast
    then show ?thesis using attrs by simp
  qed
  have decodable: "\<not> undecodable first"
    by (simp add: undecodable_def pv dec)
  have none: "\<not> (\<exists>p\<in>set (first # rest). undecodable p)"
  proof
    assume "\<exists>p\<in>set (first # rest). undecodable p"
    then obtain p where p: "p \<in> set (first # rest)" and bad: "undecodable p" ..
    from set_ConsD [OF p] show False using bad decodable others by blast
  qed
  have "filter (\<lambda>p. part_key p = nm) rest = []"
    using others by (simp add: filter_empty_conv)
  then have found: "cookie_map (first # rest) nm = Some val"
    using name(1,5) by (simp add: cookie_map_def key pv dec)
  have "header \<noteq> []"
    using name(1) by (cases options) (simp_all add: header_def first_def)
  then have "parseCookies (Some header) = Inr (cookie_map (first # rest))"
    using none by (simp add: parseCookies_def parse_parts_spec parts)
  then show ?thesis
    by (simp add: round_trip_def build lookup_cookie_def bind_result_def found)
qed

text \<open>
  C3, amended. For every value string without unpaired surrogates, every cookie name that is
  not empty, does not begin with white space, contains neither \<open>;\<close> nor \<open>=\<close> and is not
  \<open>__proto__\<close>, and every attribute list none of whose \<open>;\<close>-separated parts has that name
  or a value that fails to percent-decode, decoding the header that \<open>buildCookie\<close> writes
  recovers the value exactly: \<open>parseCookies(buildCookie(name, value, attrs))[name] = value\<close>.
  Values containing \<open>;\<close>, \<open>=\<close> or non-ASCII characters are covered.
\<close>

theorem cookie_round_trip:
  assumes "nm \<noteq> []" and "\<not> isWhiteSpace (hd nm)" and "0x3B \<notin> set nm" and "0x3D \<notin> set nm"
    and "nm \<noteq> js ''__proto__''"
    and "isWellFormed val"
    and "\<forall>q\<in>set (attribute_parts options). part_key q \<noteq> nm \<and> \<not> undecodable q"
  shows "round_trip nm val options = Inr (Some val)"
  using assms by (rule round_trip_holds)

lemma sample_attribute_parts:
  "attribute_parts (cookieOptions prod_cfg)
   = [js ''HttpOnly'', js ''Path=/'', js ''SameSite=Lax'', js ''Max-Age=86400'', js ''Secure'']"
  by (simp add: attribute_parts_def cookieOptions_def prod_cfg_def js_def eval_split)

lemma sample_attribute_keys:
  "part_key (js ''HttpOnly'') = js ''HttpOnly''" "part_key (js ''Path=/'') = js ''Path''"
  "part_key (js ''SameSite=Lax'') = js ''SameSite''"
  "part_key (js ''Max-Age=86400'') = js ''Max-Age''" "part_key (js ''Secure'') = js ''Secure''"
  by (simp_all add: js_def part_key_def trim_def isWhiteSpace_def)

lemma sample_attribute_values:
  "part_value (js ''HttpOnly'') = []" "part_value (js ''Path=/'') = js ''/''"
  "part_value (js ''SameSite=Lax'') = js ''Lax''"
  "part_value (js ''Max-Age=86400'') = js ''86400''" "part_value (js ''Secure'') = []"
  by (simp_all add: js_def part_value_def trim_def isWhiteSpace_def eval_split)

lemma sample_attribute_decodes:
  "decodeURIComponent [] = Inr []" "decodeURIComponent (js ''/'') = Inr (js ''/'')"
  "decodeURIComponent (js ''Lax'') = Inr (js ''Lax'')"
  "decodeURIComponent (js ''86400'') = Inr (js ''86400'')"
  by (simp_all add: js_def bind_result_def)

lemma sample_attributes_ok:
  "list_all (\<lambda>q. part_key q \<noteq> AUTH_COOKIE \<and> \<not> undecodable q)
     (attribute_parts (cookieOptions prod_cfg))"
proof -
  have "js ''HttpOnly'' \<noteq> AUTH_COOKIE" "js ''Path'' \<noteq> AUTH_COOKIE" "js ''SameSite'' \<noteq> AUTH_COOKIE"
    "js ''Max-Age'' \<noteq> AUTH_COOKIE" "js ''Secure'' \<noteq> AUTH_COOKIE"
    by (simp_all add: js_def AUTH_COOKIE_def)
  then show ?thesis
    by (simp add: sample_attribute_parts undecodable_def sample_attribute_keys
        sample_attribute_values sample_attribute_decodes)
qed

theorem cookie_round_trip_witness:
  "AUTH_COOKIE \<noteq> [] \<and> \<not> isWhiteSpace (hd AUTH_COOKIE)
   \<and> 0x3B \<notin> set AUTH_COOKIE \<and> 0x3D \<notin> set AUTH_COOKIE \<and> AUTH_COOKIE \<noteq> js ''__proto__''
   \<and> isWellFormed (js ''a;b=c '' @ [0xE9, 0x20AC, 0xD83D, 0xDE00])
   \<and> list_all (\<lambda>q. part_key q \<noteq> AUTH_COOKIE \<and> \<not> undecodable q)
        (attribute_parts (cookieOptions prod_cfg))
   \<and> round_trip AUTH_COOKIE (js ''a;b=c '' @ [0xE9, 0x20AC, 0xD83D, 0xDE00]) (cookieOptions prod_cfg)
       = Inr (Some (js ''a;b=c '' @ [0xE9, 0x20AC, 0xD83D, 0xDE00]))"
proof -
  have nm: "AUTH_COOKIE \<noteq> []" "\<not> isWhiteSpace (hd AUTH_COOKIE)"
    "0x3B \<notin> set AUTH_COOKIE" "0x3D \<notin> set AUTH_COOKIE" "AUTH_COOKIE \<noteq> js ''__proto__''"
    by (simp_all add: AUTH_COOKIE_def js_def isWhiteSpace_def)
  have wf: "isWellFormed (js ''a;b=c '' @ [0xE9, 0x20AC, 0xD83D, 0xDE00])"
    by (simp add: js_def isLeadingSurrogate_def isTrailingSurrogate_def)
  have attrs: "\<forall>q\<in>set (attribute_parts (cookieOptions prod_cfg)).
                 part_key q \<noteq> AUTH_COOKIE \<and> \<not> undecodable q"
    using sample_attributes_ok by (simp only: list_all_iff)
  from cookie_round_trip [OF nm wf attrs] nm wf sample_attributes_ok
  show ?thesis by simp
qed

text \<open>
  C3 as stated fails: an attribute \<open>a=x\<close> overrides the cookie \<open>a\<close>; an attribute whose
  value does not decode and a value with an unpaired surrogate make the round trip throw;
  the names \<open>""\<close>, \<open>a=b\<close>, \<open>a;b\<close> and \<open>" a"\<close> are not found in the decoded mapping; and
  the cookie \<open>__proto__\<close> leaves no entry in it at all.
\<close>

theorem cookie_round_trip_counterexample:
  "round_trip (js ''a'') (js ''v'') [js ''a=x''] = Inr (Some (js ''x''))
   \<and> round_trip (js ''a'') (js ''v'') [js ''Path=%''] = Inl URIError
   \<and> round_trip (js ''a'') [0xD800] [] = Inl URIError
   \<and> round_trip [] (js ''v'') [] = Inr None
   \<and> round_trip (js ''a=b'') (js ''v'') [] = Inr None
   \<and> round_trip (js ''a;b'') (js ''v'') [] = Inr None
   \<and> round_trip (js '' a'') (js ''v'') [] = Inr None
   \<and> buildCookie (js ''__proto__'') (js ''v'') [] = Inr (js ''__proto__=v'')
   \<and> parseCookies (Some (js ''__proto__=v'')) = Inr Map.empty"
proof -
  have enc: "encodeURIComponent [0x76] = Inr [0x76]"
    by (simp add: js_def uriUnescaped_def bind_result_def)
  have lone: "encodeURIComponent [0xD800] = Inl URIError"
    by (simp add: uriUnescaped_def js_def CodePointAt_def isLeadingSurrogate_def
        isTrailingSurrogate_def)
  note run = round_trip_def buildCookie_def lookup_cookie_def parseCookies_def bind_result_def
    parse_part_def assign_def trim_def isWhiteSpace_def
  have 1: "round_trip (js ''a'') (js ''v'') [js ''a=x''] = Inr (Some (js ''x''))"
    by (simp add: run enc js_def eval_split hex_value_def del: encodeURIComponent.simps)
  have 2: "round_trip (js ''a'') (js ''v'') [js ''Path=%''] = Inl URIError"
    by (simp add: run enc js_def eval_split hex_value_def del: encodeURIComponent.simps)
  have 3: "round_trip (js ''a'') [0xD800] [] = Inl URIError"
    by (simp add: run lone del: encodeURIComponent.simps)
  have 4: "round_trip [] (js ''v'') [] = Inr None"
    by (simp add: run enc js_def eval_split hex_value_def del: encodeURIComponent.simps)
  have 5: "round_trip (js ''a=b'') (js ''v'') [] = Inr None"
    by (simp add: run enc js_def eval_split hex_value_def del: encodeURIComponent.simps)
  have 6: "round_trip (js ''a;b'') (js ''v'') [] = Inr None"
    by (simp add: run enc js_def eval_split hex_value_def del: encodeURIComponent.simps)
  have 7: "round_trip (js '' a'') (js ''v'') [] = Inr None"
    by (simp add: run enc js_def eval_split hex_value_def del: encodeURIComponent.simps)
  have 8: "buildCookie (js ''__proto__'') (js ''v'') [] = Inr (js ''__proto__=v'')"
    by (simp add: run enc js_def del: encodeURIComponent.simps)
  have 9: "parseCookies (Some (js ''__proto__=v'')) = Inr Map.empty"
    by (simp add: run js_def eval_split hex_value_def)
  from 1 2 3 4 5 6 7 8 9 show ?thesis by blast
qed

section \<open>The login route: validation and failures\<close>

lemma sample_strings:
  "js ''alice'' \<noteq> []" "js ''bob'' \<noteq> []" "js ''x'' \<noteq> []" "js ''wrong'' \<noteq> []"
  "js ''correct-pw'' \<noteq> []" "js ''bob'' \<noteq> js ''alice''" "js ''wrong'' \<noteq> js ''correct-pw''"
  by (simp_all add: js_def)

lemma sample_queries:
  "pool_query sample_pool (js ''alice'') = Inr [alice]"
  "pool_query sample_pool (js ''bob'') = Inr []"
  using sample_strings(6) by (simp_all add: pool_query_def sample_pool_def alice_def)

lemma sample_verifications:
  "argon2_verify sample_scheme (row_password_hash alice) (js ''correct-pw'') = Inr True"
  "argon2_verify sample_scheme (row_password_hash alice) (js ''wrong'') = Inr False"
  using sample_strings(7) by (simp_all add: argon2_verify_def sample_scheme_def alice_def)

text \<open>
  C7. A login request in which the username or the password is missing or the empty string
  (or which has no body at all) is answered 400 with an error body, and the handler has made
  no call to the credential store or to the credential verifier: its list of calls is empty.
\<close>

theorem login_requires_both_fields:
  "api_login cfg db scheme lib now None
     = ([], Inr \<lparr>status = 400, set_cookie = None,
                response_body = error_body ''Username and password are required''\<rparr>)
   \<and> (body_username b = None \<or> body_username b = Some []
        \<or> body_password b = None \<or> body_password b = Some [] \<longrightarrow>
       api_login cfg db scheme lib now (Some b)
         = ([], Inr \<lparr>status = 400, set_cookie = None,
                    response_body = error_body ''Username and password are required''\<rparr>))"
  by (auto simp: api_login_def split: option.splits)

theorem login_requires_both_fields_witness:
  "body_password \<lparr>body_username = Some (js ''alice''), body_password = Some []\<rparr> = Some []
   \<and> api_login prod_cfg Unreachable sample_scheme sample_jws 1000
        (Some \<lparr>body_username = Some (js ''alice''), body_password = Some []\<rparr>)
       = ([], Inr \<lparr>status = 400, set_cookie = None,
                  response_body = error_body ''Username and password are required''\<rparr>)"
  using login_requires_both_fields
    [of prod_cfg Unreachable sample_scheme sample_jws 1000
        "\<lparr>body_username = Some (js ''alice''), body_password = Some []\<rparr>"]
  by simp

text \<open>
  C6. For login requests with non-empty username and password, the response when the
  username has no stored record and the response when the record exists but the password
  fails verification are the same response: status 401, no cookie, and the body
  \<open>{error: "Invalid username or password"}\<close>.
\<close>

theorem login_failures_indistinguishable:
  assumes "u1 \<noteq> []" and "p1 \<noteq> []" and "u2 \<noteq> []" and "p2 \<noteq> []"
    and "pool_query db u1 = Inr []"
    and "pool_query db u2 = Inr (user # others)"
    and "argon2_verify scheme (row_password_hash user) p2 = Inr False"
  shows "snd (api_login cfg db scheme lib now
                (Some \<lparr>body_username = Some u1, body_password = Some p1\<rparr>))
           = Inr \<lparr>status = 401, set_cookie = None,
                  response_body = error_body ''Invalid username or password''\<rparr>
       \<and> snd (api_login cfg db scheme lib now'
                (Some \<lparr>body_username = Some u2, body_password = Some p2\<rparr>))
           = snd (api_login cfg db scheme lib now
                (Some \<lparr>body_username = Some u1, body_password = Some p1\<rparr>))"
  using assms by (simp add: api_login_def)

theorem login_failures_indistinguishable_witness:
  "js ''bob'' \<noteq> [] \<and> js ''x'' \<noteq> [] \<and> js ''alice'' \<noteq> [] \<and> js ''wrong'' \<noteq> []
   \<and> pool_query sample_pool (js ''bob'') = Inr []
   \<and> pool_query sample_pool (js ''alice'') = Inr [alice]
   \<and> argon2_verify sample_scheme (row_password_hash alice) (js ''wrong'') = Inr False
   \<and> snd (api_login prod_cfg sample_pool sample_scheme sample_jws 1000
            (Some \<lparr>body_username = Some (js ''alice''), body_password = Some (js ''wrong'')\<rparr>))
       = snd (api_login prod_cfg sample_pool sample_scheme sample_jws 1000
            (Some \<lparr>body_username = Some (js ''bob''), body_password = Some (js ''x'')\<rparr>))"
  using login_failures_indistinguishable
    [OF sample_strings(2) sample_strings(3) sample_strings(1) sample_strings(4)
        sample_queries(2) sample_queries(1) sample_verifications(2),
     of prod_cfg sample_jws 1000 1000]
    sample_strings sample_queries sample_verifications
  by simp

section \<open>The identify route: missing, empty and expired tokens\<close>

lemmas eval_me = parseCookies_def parse_part_def trim_def isWhiteSpace_def bind_result_def
  assign_def hex_value_def eval_split

lemma cleared_cookie:
  "parseCookies (Some (js ''auth_token='')) = Inr [AUTH_COOKIE \<mapsto> []]"
  by (simp add: js_def AUTH_COOKIE_def eval_me)

lemma logout_header:
  "api_logout cfg
   = ([], Inr \<lparr>status = 200,
               set_cookie = Some (js ''auth_token=; HttpOnly; Path=/; SameSite=Lax; Max-Age=0''
                  @ (if NODE_ENV cfg = js ''production'' then js ''; Secure'' else [])),
               response_body = JObject [(''success'', JBool True)]\<rparr>)"
  by (simp add: api_logout_def buildCookie_def clearCookieOptions_def AUTH_COOKIE_def
      bind_result_def js_def)

lemma presented_cleared_cookie:
  "presented_cookie (js ''auth_token=; HttpOnly; Path=/; SameSite=Lax; Max-Age=0'' @ suffix)
   = js ''auth_token=''"
  by (simp add: presented_cookie_def js_def)

lemma me_empty_token:
  assumes "parseCookies cookie = Inr cookies" and "cookies AUTH_COOKIE = Some []"
  shows "api_me cfg lib now cookie
         = ([], Inr \<lparr>status = 401, set_cookie = None,
                     response_body = error_body ''Missing session cookie''\<rparr>)"
  using assms by (simp add: api_me_def)

subsection \<open>The session cookie of a header\<close>

lemma AUTH_COOKIE_named: "AUTH_COOKIE \<noteq> []" "AUTH_COOKIE \<noteq> js ''__proto__''"
  by (simp_all add: AUTH_COOKIE_def js_def)

lemma api_me_faults:
  assumes "h \<noteq> []" and "\<exists>p\<in>set (split_on 0x3B h). undecodable p"
  shows "api_me cfg lib now (Some h) = ([], Inl URIError)"
  using assms by (simp add: api_me_def parseCookies_header)


lemma session_cookie_last:
  assumes "h \<noteq> []" and "\<not> (\<exists>p\<in>set (split_on 0x3B h). undecodable p)"
    and "split_on 0x3B h = before @ p # after" and "part_key p = AUTH_COOKIE"
    and "\<forall>q\<in>set after. part_key q \<noteq> AUTH_COOKIE"
    and "decodeURIComponent (part_value p) = Inr token"
  obtains cookies where "parseCookies (Some h) = Inr cookies"
    and "cookies AUTH_COOKIE = Some token"
proof -
  have "cookie_map (split_on 0x3B h) AUTH_COOKIE = Some token"
    using AUTH_COOKIE_named assms(3-6) by (rule cookie_map_last)
  then show ?thesis
    using that assms(1,2) by (simp add: parseCookies_header)
qed




subsection \<open>Sample headers\<close>

lemma sample_session_parts:
  "split_on 0x3B (js ''auth_token='') = [js ''auth_token='']"
  "split_on 0x3B (js ''auth_token=%'') = [js ''auth_token=%'']"
  "split_on 0x3B (js ''theme=dark'') = [js ''theme=dark'']"
  "split_on 0x3B (js ''auth_token=garbage'') = [js ''auth_token=garbage'']"
  "split_on 0x3B (js ''auth_token=forged.token'') = [js ''auth_token=forged.token'']"
  "split_on 0x3B (js ''auth_token=alice.token'') = [js ''auth_token=alice.token'']"
  "split_on 0x3B (js ''auth_token=; x=%'') = [js ''auth_token='', js '' x=%'']"
  "split_on 0x3B (js ''auth_token=; auth_token=alice.token'')
   = [js ''auth_token='', js '' auth_token=alice.token'']"
  by (simp_all add: js_def eval_split)

lemma sample_session_keys:
  "part_key (js ''auth_token='') = AUTH_COOKIE"
  "part_key (js ''auth_token=%'') = AUTH_COOKIE"
  "part_key (js ''theme=dark'') = js ''theme''"
  "part_key (js ''auth_token=garbage'') = AUTH_COOKIE"
  "part_key (js ''auth_token=forged.token'') = AUTH_COOKIE"
  "part_key (js ''auth_token=alice.token'') = AUTH_COOKIE"
  "part_key (js '' x=%'') = js ''x''"
  "part_key (js '' auth_token=alice.token'') = AUTH_COOKIE"
  by (simp_all add: js_def AUTH_COOKIE_def part_key_def trim_def isWhiteSpace_def)

lemma sample_session_values:
  "part_value (js ''auth_token='') = []"
  "part_value (js ''auth_token=%'') = js ''%''"
  "part_value (js ''theme=dark'') = js ''dark''"
  "part_value (js ''auth_token=garbage'') = js ''garbage''"
  "part_value (js ''auth_token=forged.token'') = js ''forged.token''"
  "part_value (js ''auth_token=alice.token'') = js ''alice.token''"
  "part_value (js '' x=%'') = js ''%''"
  "part_value (js '' auth_token=alice.token'') = js ''alice.token''"
  by (simp_all add: js_def part_value_def trim_def isWhiteSpace_def eval_split)

lemma sample_session_decodes:
  "decodeURIComponent [] = Inr []"
  "decodeURIComponent (js ''%'') = Inl URIError"
  "decodeURIComponent (js ''dark'') = Inr (js ''dark'')"
  "decodeURIComponent (js ''garbage'') = Inr (js ''garbage'')"
  "decodeURIComponent (js ''forged.token'') = Inr (js ''forged.token'')"
  "decodeURIComponent (js ''alice.token'') = Inr (js ''alice.token'')"
  by (simp_all add: js_def bind_result_def)

lemma sample_session_names:
  "js ''theme'' \<noteq> AUTH_COOKIE" "js ''x'' \<noteq> []" "js ''theme'' \<noteq> []"
  "js ''auth_token='' \<noteq> []" "js ''auth_token=%'' \<noteq> []" "js ''theme=dark'' \<noteq> []"
  "js ''auth_token=garbage'' \<noteq> []" "js ''auth_token=forged.token'' \<noteq> []"
  "js ''auth_token=alice.token'' \<noteq> []" "js ''auth_token=; x=%'' \<noteq> []"
  "js ''auth_token=; auth_token=alice.token'' \<noteq> []"
  by (simp_all add: js_def AUTH_COOKIE_def)

lemma sample_decodable:
  "\<not> undecodable (js ''auth_token='')" "undecodable (js ''auth_token=%'')"
  "\<not> undecodable (js ''theme=dark'')" "\<not> undecodable (js ''auth_token=garbage'')"
  "\<not> undecodable (js ''auth_token=forged.token'')" "\<not> undecodable (js ''auth_token=alice.token'')"
  "undecodable (js '' x=%'')" "\<not> undecodable (js '' auth_token=alice.token'')"
  using AUTH_COOKIE_named(1) sample_session_names(2,3)
  by (simp_all add: undecodable_def sample_session_keys sample_session_values
      sample_session_decodes)

subsection \<open>Tokens in the sample table\<close>

lemma sample_cookies:
  "parseCookies (Some (js ''auth_token=alice.token'')) = Inr [AUTH_COOKIE \<mapsto> js ''alice.token'']"
  "parseCookies (Some (js ''auth_token=forged.token'')) = Inr [AUTH_COOKIE \<mapsto> js ''forged.token'']"
  "parseCookies (Some (js ''auth_token=garbage'')) = Inr [AUTH_COOKIE \<mapsto> js ''garbage'']"
  "parseCookies (Some (js ''theme=dark'')) = Inr [js ''theme'' \<mapsto> js ''dark'']"
  by (simp_all add: js_def AUTH_COOKIE_def eval_me)

lemma sample_tokens:
  "js ''alice.token'' \<noteq> []" "js ''forged.token'' \<noteq> []" "js ''garbage'' \<noteq> []"
  "js ''forged.token'' \<noteq> js ''alice.token''" "js ''garbage'' \<noteq> js ''alice.token''"
  "js ''garbage'' \<noteq> js ''forged.token''"
  by (simp_all add: js_def)

lemma sample_decodes:
  "jws_decode sample_jws (js ''alice.token'') = Some alice_claims"
  "jws_decode sample_jws (js ''forged.token'') = Some alice_claims"
  "jws_decode sample_jws (js ''garbage'') = None"
  using sample_tokens by (simp_all add: sample_jws_def)

lemma sample_signatures:
  "jws_verify sample_jws (js ''alice.token'') (JWT_SECRET prod_cfg)"
  "\<not> jws_verify sample_jws (js ''forged.token'') (JWT_SECRET prod_cfg)"
  using sample_tokens by (simp_all add: sample_jws_def prod_cfg_def)

subsection \<open>The empty session cookie\<close>

text \<open>
  C10, amended. When the cookie header of the request decodes (no part with a non-empty
  name has a value that fails to percent-decode) and its last part named \<open>auth_token\<close> has
  the empty value, \<open>/api/me\<close> answers 401 \<open>{error: "Missing session cookie"}\<close> and has not
  called the token verification: its list of calls is empty. The same holds whenever
  \<open>parseCookies\<close> returns a mapping whose \<open>auth_token\<close> entry is the empty string. That is
  the case for the cookie \<open>auth_token=\<close> that a client holds after the \<open>Set-Cookie\<close> header
  of \<open>/api/logout\<close>.
\<close>

theorem empty_session_cookie_is_missing:
  "(parseCookies cookie = Inr cookies \<and> cookies AUTH_COOKIE = Some [] \<longrightarrow>
      api_me cfg lib now cookie
        = ([], Inr \<lparr>status = 401, set_cookie = None,
                    response_body = error_body ''Missing session cookie''\<rparr>))
   \<and> (h \<noteq> [] \<and> \<not> (\<exists>q\<in>set (split_on 0x3B h). undecodable q)
        \<and> split_on 0x3B h = before @ p # after
        \<and> part_key p = AUTH_COOKIE \<and> part_value p = []
        \<and> (\<forall>q\<in>set after. part_key q \<noteq> AUTH_COOKIE) \<longrightarrow>
      api_me cfg lib now (Some h)
        = ([], Inr \<lparr>status = 401, set_cookie = None,
                    response_body = error_body ''Missing session cookie''\<rparr>))
   \<and> (\<exists>header.
         api_logout cfg = ([], Inr \<lparr>status = 200, set_cookie = Some header,
                                   response_body = JObject [(''success'', JBool True)]\<rparr>)
         \<and> presented_cookie header = js ''auth_token=''
         \<and> api_me cfg lib now (Some (presented_cookie header))
             = ([], Inr \<lparr>status = 401, set_cookie = None,
                         response_body = error_body ''Missing session cookie''\<rparr>))"
proof (intro conjI impI)
  assume "parseCookies cookie = Inr cookies \<and> cookies AUTH_COOKIE = Some []"
  then show "api_me cfg lib now cookie
        = ([], Inr \<lparr>status = 401, set_cookie = None,
                    response_body = error_body ''Missing session cookie''\<rparr>)"
    using me_empty_token by blast
next
  assume a: "h \<noteq> [] \<and> \<not> (\<exists>q\<in>set (split_on 0x3B h). undecodable q)
        \<and> split_on 0x3B h = before @ p # after
        \<and> part_key p = AUTH_COOKIE \<and> part_value p = []
        \<and> (\<forall>q\<in>set after. part_key q \<noteq> AUTH_COOKIE)"
  then have "decodeURIComponent (part_value p) = Inr []" by simp
  with a obtain jar where "parseCookies (Some h) = Inr jar" and "jar AUTH_COOKIE = Some []"
    using session_cookie_last [of h before p after "[]"] by blast
  then show "api_me cfg lib now (Some h)
        = ([], Inr \<lparr>status = 401, set_cookie = None,
                    response_body = error_body ''Missing session cookie''\<rparr>)"
    by (rule me_empty_token)
next
  let ?header = "js ''auth_token=; HttpOnly; Path=/; SameSite=Lax; Max-Age=0''
                  @ (if NODE_ENV cfg = js ''production'' then js ''; Secure'' else [])"
  have "api_me cfg lib now (Some (presented_cookie ?header))
          = ([], Inr \<lparr>status = 401, set_cookie = None,
                      response_body = error_body ''Missing session cookie''\<rparr>)"
    unfolding presented_cleared_cookie
    by (rule me_empty_token [OF cleared_cookie]) simp
  then show "\<exists>header.
         api_logout cfg = ([], Inr \<lparr>status = 200, set_cookie = Some header,
                                   response_body = JObject [(''success'', JBool True)]\<rparr>)
         \<and> presented_cookie header = js ''auth_token=''
         \<and> api_me cfg lib now (Some (presented_cookie header))
             = ([], Inr \<lparr>status = 401, set_cookie = None,
                         response_body = error_body ''Missing session cookie''\<rparr>)"
    using logout_header [of cfg] presented_cleared_cookie by blast
qed

theorem empty_session_cookie_is_missing_witness:
  "parseCookies (Some (js ''auth_token='')) = Inr [AUTH_COOKIE \<mapsto> []]
   \<and> [AUTH_COOKIE \<mapsto> []] AUTH_COOKIE = Some []
   \<and> js ''auth_token='' \<noteq> []
   \<and> \<not> (\<exists>q\<in>set (split_on 0x3B (js ''auth_token='')). undecodable q)
   \<and> split_on 0x3B (js ''auth_token='') = [] @ js ''auth_token='' # []
   \<and> part_key (js ''auth_token='') = AUTH_COOKIE \<and> part_value (js ''auth_token='') = []
   \<and> api_me prod_cfg sample_jws 1000 (Some (js ''auth_token=''))
       = ([], Inr \<lparr>status = 401, set_cookie = None,
                   response_body = error_body ''Missing session cookie''\<rparr>)"
proof -
  have ok: "\<not> (\<exists>q\<in>set (split_on 0x3B (js ''auth_token='')). undecodable q)"
    by (simp add: sample_session_parts sample_decodable)
  have sp: "split_on 0x3B (js ''auth_token='') = [] @ js ''auth_token='' # []"
    by (simp add: sample_session_parts)
  from empty_session_cookie_is_missing
    [of "Some (js ''auth_token='')" "[AUTH_COOKIE \<mapsto> []]" prod_cfg sample_jws 1000
        "js ''auth_token=''" "[]" "js ''auth_token=''" "[]"]
    cleared_cookie ok sp sample_session_keys(1) sample_session_values(1) sample_session_names(4)
  show ?thesis by simp
qed

text \<open>
  C10 as stated fails for two headers that contain the session cookie with an empty value.
  On \<open>auth_token=; x=%\<close> the value of \<open>x\<close> does not decode and the handler faults with
  URIError. On \<open>auth_token=; auth_token=alice.token\<close> the later part wins: the token is
  verified and the answer is 200.
\<close>

theorem empty_session_cookie_counterexample:
  "api_me prod_cfg sample_jws 1000 (Some (js ''auth_token=; x=%'')) = ([], Inl URIError)
   \<and> api_me prod_cfg sample_jws 1000 (Some (js ''auth_token=; auth_token=alice.token''))
       = ([JwtVerify (js ''alice.token'')],
          Inr \<lparr>status = 200, set_cookie = None,
               response_body = JObject [(''user'', JObject
                 [(''id'', JString (js ''1'')), (''username'', JString (js ''alice'')),
                  (''name'', JNull)])]\<rparr>)"
proof -
  have 1: "api_me prod_cfg sample_jws 1000 (Some (js ''auth_token=; x=%'')) = ([], Inl URIError)"
    using sample_session_names(10)
    by (intro api_me_faults) (simp_all add: sample_session_parts sample_decodable)
  have valid: "verifyToken prod_cfg sample_jws 1000 (js ''alice.token'') = Inr alice_claims"
    using sample_signatures(1)
    by (simp add: verifyToken_def jwt_verify_def sample_decodes) (simp add: alice_claims_def)
  have "\<not> (\<exists>q\<in>set (split_on 0x3B (js ''auth_token=; auth_token=alice.token'')). undecodable q)"
    by (simp add: sample_session_parts sample_decodable)
  moreover have "split_on 0x3B (js ''auth_token=; auth_token=alice.token'')
      = [js ''auth_token=''] @ js '' auth_token=alice.token'' # []"
    by (simp add: sample_session_parts)
  moreover have "decodeURIComponent (part_value (js '' auth_token=alice.token''))
      = Inr (js ''alice.token'')"
    by (simp add: sample_session_values sample_session_decodes)
  ultimately obtain jar
    where "parseCookies (Some (js ''auth_token=; auth_token=alice.token'')) = Inr jar"
      and "jar AUTH_COOKIE = Some (js ''alice.token'')"
    using session_cookie_last
      [of "js ''auth_token=; auth_token=alice.token''" "[js ''auth_token='']"
          "js '' auth_token=alice.token''" "[]" "js ''alice.token''"]
      sample_session_names(11) sample_session_keys(8)
    by auto
  then have 2: "api_me prod_cfg sample_jws 1000 (Some (js ''auth_token=; auth_token=alice.token''))
       = ([JwtVerify (js ''alice.token'')],
          Inr \<lparr>status = 200, set_cookie = None,
               response_body = JObject [(''user'', JObject
                 [(''id'', JString (js ''1'')), (''username'', JString (js ''alice'')),
                  (''name'', JNull)])]\<rparr>)"
    using sample_tokens(1)
    by (simp add: api_me_def valid) (simp add: alice_claims_def nullable_def)
  from 1 2 show ?thesis by simp
qed

subsection \<open>Expired tokens\<close>

text \<open>
  C9. A token whose \<open>expires_at\<close> is at or before the current time fails verification, and
  \<open>/api/me\<close> answers 401 to a request that carries it; this includes the boundary where the
  current time equals \<open>expires_at\<close>. A token that verifies has \<open>expires_at\<close> strictly after
  the current time.
\<close>

theorem expired_token_is_rejected:
  "(jws_decode lib token = Some c \<and> expires_at c \<le> now \<longrightarrow>
      (\<exists>e. verifyToken cfg lib now token = Inl e)
      \<and> (parseCookies cookie = Inr cookies \<and> cookies AUTH_COOKIE = Some token \<longrightarrow>
           (\<exists>calls r. api_me cfg lib now cookie = (calls, Inr r) \<and> status r = 401)))
   \<and> (verifyToken cfg lib now token = Inr c \<longrightarrow>
        jws_decode lib token = Some c \<and> now < expires_at c)"
  by (auto simp: verifyToken_def jwt_verify_def api_me_def split: option.splits if_splits)

theorem expired_token_is_rejected_witness:
  "jws_decode sample_jws (js ''alice.token'') = Some alice_claims
   \<and> expires_at alice_claims \<le> 87400
   \<and> verifyToken prod_cfg sample_jws 87400 (js ''alice.token'') = Inl TokenExpired
   \<and> parseCookies (Some (js ''auth_token=alice.token'')) = Inr [AUTH_COOKIE \<mapsto> js ''alice.token'']
   \<and> snd (api_me prod_cfg sample_jws 87400 (Some (js ''auth_token=alice.token'')))
       = Inr \<lparr>status = 401, set_cookie = None,
              response_body = error_body ''Invalid or expired session''\<rparr>
   \<and> verifyToken prod_cfg sample_jws 87399 (js ''alice.token'') = Inr alice_claims
   \<and> 87399 < expires_at alice_claims"
proof -
  have expired: "verifyToken prod_cfg sample_jws 87400 (js ''alice.token'') = Inl TokenExpired"
    using sample_signatures(1)
    by (simp add: verifyToken_def jwt_verify_def sample_decodes alice_claims_def)
  have valid: "verifyToken prod_cfg sample_jws 87399 (js ''alice.token'') = Inr alice_claims"
    using sample_signatures(1)
    by (simp add: verifyToken_def jwt_verify_def sample_decodes) (simp add: alice_claims_def)
  have me: "snd (api_me prod_cfg sample_jws 87400 (Some (js ''auth_token=alice.token'')))
       = Inr \<lparr>status = 401, set_cookie = None,
              response_body = error_body ''Invalid or expired session''\<rparr>"
    using sample_tokens(1) by (simp add: api_me_def sample_cookies expired)
  from expired_token_is_rejected
    [of sample_jws "js ''alice.token''" alice_claims 87400 prod_cfg
        "Some (js ''auth_token=alice.token'')" "[AUTH_COOKIE \<mapsto> js ''alice.token'']"]
    expired_token_is_rejected
    [of sample_jws "js ''alice.token''" alice_claims 87399 prod_cfg]
    expired valid me sample_decodes(1) sample_cookies(1)
  show ?thesis by (simp add: alice_claims_def)
qed

section \<open>The identify route: the failure responses; the credential verifier\<close>




text \<open>
  C5. For every password and every stored-hash string the credential verifier returns a
  boolean and does not throw; it returns false whenever the hash is malformed or the
  password does not match; and when it returns false for the record that the login looked
  up, the login response is the generic 401 \<open>{error: "Invalid username or password"}\<close>, not
  a fault.
\<close>

theorem verification_failure_is_generic_401:
  "(\<exists>b. argon2_verify scheme (Some h) p = Inr b)
   \<and> (scheme h p \<noteq> Some True \<longrightarrow> argon2_verify scheme (Some h) p = Inr False)
   \<and> (u \<noteq> [] \<and> p \<noteq> [] \<and> pool_query db u = Inr (user # others)
        \<and> row_password_hash user = Some h \<and> scheme h p \<noteq> Some True \<longrightarrow>
        snd (api_login cfg db scheme lib now
               (Some \<lparr>body_username = Some u, body_password = Some p\<rparr>))
          = Inr \<lparr>status = 401, set_cookie = None,
                 response_body = error_body ''Invalid username or password''\<rparr>)"
  by (auto simp: argon2_verify_def api_login_def split: option.splits)

theorem verification_failure_is_generic_401_witness:
  "sample_scheme (js ''not-a-hash'') (js ''x'') \<noteq> Some True
   \<and> argon2_verify sample_scheme (Some (js ''not-a-hash'')) (js ''x'') = Inr False
   \<and> js ''bob'' \<noteq> [] \<and> js ''x'' \<noteq> []
   \<and> pool_query (Pool [alice, malformed_hash_user]) (js ''bob'') = Inr [malformed_hash_user]
   \<and> row_password_hash malformed_hash_user = Some (js ''not-a-hash'')
   \<and> snd (api_login prod_cfg (Pool [alice, malformed_hash_user]) sample_scheme sample_jws 1000
            (Some \<lparr>body_username = Some (js ''bob''), body_password = Some (js ''x'')\<rparr>))
       = Inr \<lparr>status = 401, set_cookie = None,
              response_body = error_body ''Invalid username or password''\<rparr>"
proof -
  have m: "sample_scheme (js ''not-a-hash'') (js ''x'') \<noteq> Some True"
    by (simp add: sample_scheme_def js_def)
  have q: "pool_query (Pool [alice, malformed_hash_user]) (js ''bob'') = Inr [malformed_hash_user]"
    using sample_strings(6) by (simp add: pool_query_def alice_def malformed_hash_user_def)
  have h: "row_password_hash malformed_hash_user = Some (js ''not-a-hash'')"
    by (simp add: malformed_hash_user_def)
  from verification_failure_is_generic_401
    [of sample_scheme "js ''not-a-hash''" "js ''x''" "js ''bob''"
        "Pool [alice, malformed_hash_user]" malformed_hash_user "[]" prod_cfg sample_jws 1000]
    m q h sample_strings(2,3)
  show ?thesis by simp
qed

section \<open>The cookies the service sets\<close>

subsection \<open>The \<open>Set-Cookie\<close> header of a login\<close>

lemma encoded_no_semicolon:
  "encodeURIComponent v = Inr e \<Longrightarrow> 0x3B \<notin> set e"
  using encode_units uriUnescaped_plain by blast

lemma AUTH_COOKIE_plain:
  "AUTH_COOKIE \<noteq> []" "\<not> isWhiteSpace (hd AUTH_COOKIE)" "0x3B \<notin> set AUTH_COOKIE"
  "0x3D \<notin> set AUTH_COOKIE" "AUTH_COOKIE \<noteq> js ''__proto__''"
  by (simp_all add: AUTH_COOKIE_def js_def isWhiteSpace_def)

lemma buildCookie_parts:
  assumes "buildCookie nm v options = Inr header" and "0x3B \<notin> set nm"
  obtains e where "encodeURIComponent v = Inr e"
    and "header = join (js ''; '') ((nm @ 0x3D # e) # options)"
    and "split_on 0x3B header
         = (nm @ 0x3D # e) # concat (map (\<lambda>y. split_on 0x3B (0x20 # y)) options)"
proof -
  from assms(1) obtain e where e: "encodeURIComponent v = Inr e"
    and h: "header = join (js ''; '') ((nm @ 0x3D # e) # options)"
    by (auto simp: buildCookie_def bind_result_Inr_iff js_def)
  have "0x3B \<notin> set (nm @ 0x3D # e)"
    using assms(2) encoded_no_semicolon [OF e] by simp
  then have "split_on 0x3B (nm @ 0x3D # e) = [nm @ 0x3D # e]"
    by (rule split_on_no_sep)
  then have "split_on 0x3B header
         = (nm @ 0x3D # e) # concat (map (\<lambda>y. split_on 0x3B (0x20 # y)) options)"
    by (simp add: h split_on_join)
  with e h show ?thesis by (rule that)
qed

lemma cookie_attributes_buildCookie:
  assumes "buildCookie nm v options = Inr header" and "0x3B \<notin> set nm"
    and "\<forall>y\<in>set options. 0x3B \<notin> set y \<and> trim (0x20 # y) = y"
  shows "cookie_attributes header = options"
proof -
  from assms(1,2) obtain e where
    sp: "split_on 0x3B header
         = (nm @ 0x3D # e) # concat (map (\<lambda>y. split_on 0x3B (0x20 # y)) options)"
    by (rule buildCookie_parts)
  have "concat (map (\<lambda>y. split_on 0x3B (0x20 # y)) options) = map ((#) 0x20) options"
    using assms(3) by (induction options) (simp_all add: split_on_no_sep)
  then have "cookie_attributes header = map (\<lambda>y. trim (0x20 # y)) options"
    by (simp add: cookie_attributes_def sp comp_def)
  also have "\<dots> = options"
    using assms(3) by (simp add: map_idI)
  finally show ?thesis .
qed

lemma plain_options:
  "\<forall>y\<in>set (cookieOptions cfg). 0x3B \<notin> set y \<and> trim (0x20 # y) = y"
  "\<forall>y\<in>set (clearCookieOptions cfg). 0x3B \<notin> set y \<and> trim (0x20 # y) = y"
  by (simp_all add: cookieOptions_def clearCookieOptions_def Let_def js_def trim_def
      isWhiteSpace_def)

lemma login_sets_cookie:
  assumes "api_login cfg db scheme lib now body = (calls, Inr r)"
    and "set_cookie r = Some header"
  obtains token where "buildCookie AUTH_COOKIE token (cookieOptions cfg) = Inr header"
    and "status r = 200"
  using assms
  by (auto simp: api_login_def Let_def
      split: option.splits if_splits sum.splits list.splits prod.splits)

lemma logout_sets_cookie:
  obtains header where
    "api_logout cfg = ([], Inr \<lparr>status = 200, set_cookie = Some header,
                              response_body = JObject [(''success'', JBool True)]\<rparr>)"
    and "buildCookie AUTH_COOKIE [] (clearCookieOptions cfg) = Inr header"
  by (simp add: api_logout_def buildCookie_def bind_result_def)

lemma me_sets_no_cookie:
  "api_me cfg lib now cookie = (calls, Inr r) \<Longrightarrow> set_cookie r = None"
  by (auto simp: api_me_def split: sum.splits option.splits if_splits)

lemma option_members:
  "js ''HttpOnly'' \<in> set (cookieOptions cfg)"
  "js ''Secure'' \<in> set (cookieOptions cfg) \<longleftrightarrow> NODE_ENV cfg = js ''production''"
  "js ''Max-Age=86400'' \<in> set (cookieOptions cfg)"
  "js ''Max-Age=0'' \<notin> set (cookieOptions cfg)"
  "js ''HttpOnly'' \<in> set (clearCookieOptions cfg)"
  "js ''Secure'' \<in> set (clearCookieOptions cfg) \<longleftrightarrow> NODE_ENV cfg = js ''production''"
  "js ''Max-Age=0'' \<in> set (clearCookieOptions cfg)"
  "js ''Max-Age=86400'' \<notin> set (clearCookieOptions cfg)"
  by (auto simp: cookieOptions_def clearCookieOptions_def Let_def js_def)

text \<open>
  C8. The service sets a cookie in two places only: in the 200 response of a login and in
  the response of a logout (\<open>/api/me\<close> sets none). In both, the attributes of the
  \<open>Set-Cookie\<close> header include \<open>HttpOnly\<close>, and include \<open>Secure\<close> exactly when the environment
  is \<open>production\<close>; the login's header carries \<open>Max-Age=86400\<close> and not \<open>Max-Age=0\<close>, the
  logout's carries \<open>Max-Age=0\<close> and not \<open>Max-Age=86400\<close>.
\<close>

theorem set_cookie_attributes:
  "(api_login cfg db scheme lib now body = (calls, Inr r) \<and> set_cookie r = Some header \<longrightarrow>
      status r = 200
      \<and> cookie_attributes header = cookieOptions cfg
      \<and> js ''HttpOnly'' \<in> set (cookie_attributes header)
      \<and> (js ''Secure'' \<in> set (cookie_attributes header) \<longleftrightarrow> NODE_ENV cfg = js ''production'')
      \<and> js ''Max-Age=86400'' \<in> set (cookie_attributes header)
      \<and> js ''Max-Age=0'' \<notin> set (cookie_attributes header))
   \<and> (\<exists>cleared.
         api_logout cfg = ([], Inr \<lparr>status = 200, set_cookie = Some cleared,
                                   response_body = JObject [(''success'', JBool True)]\<rparr>)
         \<and> cookie_attributes cleared = clearCookieOptions cfg
         \<and> js ''HttpOnly'' \<in> set (cookie_attributes cleared)
         \<and> (js ''Secure'' \<in> set (cookie_attributes cleared) \<longleftrightarrow> NODE_ENV cfg = js ''production'')
         \<and> js ''Max-Age=0'' \<in> set (cookie_attributes cleared)
         \<and> js ''Max-Age=86400'' \<notin> set (cookie_attributes cleared))
   \<and> (api_me cfg lib now' cookie = (calls', Inr r') \<longrightarrow> set_cookie r' = None)"
proof (intro conjI impI)
  assume a: "api_login cfg db scheme lib now body = (calls, Inr r) \<and> set_cookie r = Some header"
  then obtain token where b: "buildCookie AUTH_COOKIE token (cookieOptions cfg) = Inr header"
    and s: "status r = 200"
    using login_sets_cookie by blast
  have attrs: "cookie_attributes header = cookieOptions cfg"
    using b AUTH_COOKIE_plain(3) plain_options(1) by (rule cookie_attributes_buildCookie)
  show "status r = 200" by (rule s)
  show "cookie_attributes header = cookieOptions cfg" by (rule attrs)
  show "js ''HttpOnly'' \<in> set (cookie_attributes header)"
    unfolding attrs by (rule option_members)
  show "js ''Secure'' \<in> set (cookie_attributes header) \<longleftrightarrow> NODE_ENV cfg = js ''production''"
    unfolding attrs by (rule option_members)
  show "js ''Max-Age=86400'' \<in> set (cookie_attributes header)"
    unfolding attrs by (rule option_members)
  show "js ''Max-Age=0'' \<notin> set (cookie_attributes header)"
    unfolding attrs by (rule option_members)
next
  obtain cleared where out: "api_logout cfg
        = ([], Inr \<lparr>status = 200, set_cookie = Some cleared,
                    response_body = JObject [(''success'', JBool True)]\<rparr>)"
    and b: "buildCookie AUTH_COOKIE [] (clearCookieOptions cfg) = Inr cleared"
    by (rule logout_sets_cookie)
  have attrs: "cookie_attributes cleared = clearCookieOptions cfg"
    using b AUTH_COOKIE_plain(3) plain_options(2) by (rule cookie_attributes_buildCookie)
  show "\<exists>cleared.
         api_logout cfg = ([], Inr \<lparr>status = 200, set_cookie = Some cleared,
                                   response_body = JObject [(''success'', JBool True)]\<rparr>)
         \<and> cookie_attributes cleared = clearCookieOptions cfg
         \<and> js ''HttpOnly'' \<in> set (cookie_attributes cleared)
         \<and> (js ''Secure'' \<in> set (cookie_attributes cleared) \<longleftrightarrow> NODE_ENV cfg = js ''production'')
         \<and> js ''Max-Age=0'' \<in> set (cookie_attributes cleared)
         \<and> js ''Max-Age=86400'' \<notin> set (cookie_attributes cleared)"
    using out attrs option_members(5,6,7,8) [of cfg] by auto
next
  assume "api_me cfg lib now' cookie = (calls', Inr r')"
  then show "set_cookie r' = None" by (rule me_sets_no_cookie)
qed

subsection \<open>The sample login\<close>

lemma String_one: "String (IdNumber 1) = js ''1''"
  by (simp add: String_def decimal.simps [of "Suc 0"] js_def)

lemma sample_token:
  "signToken prod_cfg sample_jws 1000
     \<lparr>sub = String (row_id alice), username = row_username alice, name = row_name alice\<rparr>
   = js ''alice.token''"
  by (simp add: signToken_def jwt_sign_def sample_jws_def alice_claims_def alice_def prod_cfg_def
      JWT_EXPIRES_IN_def String_one)

lemma token_encoded: "encodeURIComponent (js ''alice.token'') = Inr (js ''alice.token'')"
  by (simp add: js_def uriUnescaped_def bind_result_def)

lemma sample_login:
  "api_login prod_cfg sample_pool sample_scheme sample_jws 1000
     (Some \<lparr>body_username = Some (js ''alice''), body_password = Some (js ''correct-pw'')\<rparr>)
   = ([PoolQuery (js ''alice''),
       Argon2Verify (Some (js ''$argon2id$alice'')) (js ''correct-pw''),
       JwtSign \<lparr>sub = js ''1'', username = js ''alice'', name = None\<rparr>],
      Inr \<lparr>status = 200,
           set_cookie = Some (js ''auth_token=alice.token; HttpOnly; Path=/; SameSite=Lax; Max-Age=86400; Secure''),
           response_body = JObject [(''user'', JObject
             [(''id'', JNumber 1), (''username'', JString (js ''alice'')), (''name'', JNull)])]\<rparr>)"
proof -
  have cookie: "buildCookie AUTH_COOKIE (js ''alice.token'') (cookieOptions prod_cfg)
      = Inr (js ''auth_token=alice.token; HttpOnly; Path=/; SameSite=Lax; Max-Age=86400; Secure'')"
    by (simp add: buildCookie_def token_encoded bind_result_def cookieOptions_def prod_cfg_def
        AUTH_COOKIE_def) (simp add: js_def)
  show ?thesis
    using sample_strings(1,5)
    by (simp add: api_login_def sample_queries sample_verifications sample_token cookie)
       (simp add: alice_def String_one id_json_def nullable_def)
qed

lemma sample_header_attributes:
  "cookie_attributes (js ''auth_token=alice.token; HttpOnly; Path=/; SameSite=Lax; Max-Age=86400; Secure'')
   = [js ''HttpOnly'', js ''Path=/'', js ''SameSite=Lax'', js ''Max-Age=86400'', js ''Secure'']"
  by (simp add: cookie_attributes_def js_def eval_split trim_def isWhiteSpace_def)

theorem set_cookie_attributes_witness:
  "api_login prod_cfg sample_pool sample_scheme sample_jws 1000
     (Some \<lparr>body_username = Some (js ''alice''), body_password = Some (js ''correct-pw'')\<rparr>)
   = ([PoolQuery (js ''alice''),
       Argon2Verify (Some (js ''$argon2id$alice'')) (js ''correct-pw''),
       JwtSign \<lparr>sub = js ''1'', username = js ''alice'', name = None\<rparr>],
      Inr \<lparr>status = 200,
           set_cookie = Some (js ''auth_token=alice.token; HttpOnly; Path=/; SameSite=Lax; Max-Age=86400; Secure''),
           response_body = JObject [(''user'', JObject
             [(''id'', JNumber 1), (''username'', JString (js ''alice'')), (''name'', JNull)])]\<rparr>)
   \<and> cookie_attributes (js ''auth_token=alice.token; HttpOnly; Path=/; SameSite=Lax; Max-Age=86400; Secure'')
       = cookieOptions prod_cfg
   \<and> cookieOptions prod_cfg
       = [js ''HttpOnly'', js ''Path=/'', js ''SameSite=Lax'', js ''Max-Age=86400'', js ''Secure'']
   \<and> NODE_ENV prod_cfg = js ''production''
   \<and> api_me prod_cfg sample_jws 1000 (Some (js ''auth_token=alice.token''))
       = ([JwtVerify (js ''alice.token'')],
          Inr \<lparr>status = 200, set_cookie = None,
               response_body = JObject [(''user'', JObject
                 [(''id'', JString (js ''1'')), (''username'', JString (js ''alice'')),
                  (''name'', JNull)])]\<rparr>)"
proof -
  let ?r = "\<lparr>status = 200,
           set_cookie = Some (js ''auth_token=alice.token; HttpOnly; Path=/; SameSite=Lax; Max-Age=86400; Secure''),
           response_body = JObject [(''user'', JObject
             [(''id'', JNumber 1), (''username'', JString (js ''alice'')), (''name'', JNull)])]\<rparr>"
  have valid: "verifyToken prod_cfg sample_jws 1000 (js ''alice.token'') = Inr alice_claims"
    using sample_signatures(1)
    by (simp add: verifyToken_def jwt_verify_def sample_decodes) (simp add: alice_claims_def)
  have me: "api_me prod_cfg sample_jws 1000 (Some (js ''auth_token=alice.token''))
       = ([JwtVerify (js ''alice.token'')],
          Inr \<lparr>status = 200, set_cookie = None,
               response_body = JObject [(''user'', JObject
                 [(''id'', JString (js ''1'')), (''username'', JString (js ''alice'')),
                  (''name'', JNull)])]\<rparr>)"
    using sample_tokens(1)
    by (simp add: api_me_def sample_cookies valid) (simp add: alice_claims_def nullable_def)
  have opts: "cookieOptions prod_cfg
       = [js ''HttpOnly'', js ''Path=/'', js ''SameSite=Lax'', js ''Max-Age=86400'', js ''Secure'']"
    by (simp add: cookieOptions_def prod_cfg_def)
  have env: "NODE_ENV prod_cfg = js ''production''" by (simp add: prod_cfg_def)
  from set_cookie_attributes
    [of prod_cfg sample_pool sample_scheme sample_jws 1000
        "Some \<lparr>body_username = Some (js ''alice''), body_password = Some (js ''correct-pw'')\<rparr>"
        "[PoolQuery (js ''alice''),
          Argon2Verify (Some (js ''$argon2id$alice'')) (js ''correct-pw''),
          JwtSign \<lparr>sub = js ''1'', username = js ''alice'', name = None\<rparr>]"
        ?r
        "js ''auth_token=alice.token; HttpOnly; Path=/; SameSite=Lax; Max-Age=86400; Secure''"
        1000 "Some (js ''auth_token=alice.token'')"]
    sample_login me opts env
  show ?thesis by simp
qed

section \<open>Login, then identify\<close>

subsection \<open>The cookie that the client presents after a login\<close>






end
